theory Spec2Isabelle
  imports Main "HOL-Library.Sublist" "HOL-Library.Extended_Nat"
begin

section \<open>Strings and the transport framing\<close>

text \<open>
  A JavaScript string is modelled as a \<open>string\<close>: the list of its code units.  The
  characters the program inspects (line feed, double quote, backslash) are single units.
\<close>

definition newline :: char where
  "newline = CHR 0x0A"

definition dquote :: char where
  "dquote = CHR 0x22"

definition backslash :: char where
  "backslash = CHR 0x5C"

text \<open>\<^verbatim>\<open>s.replace(/c/g, r)\<close> for a one-character pattern: every occurrence is replaced.\<close>

definition replace_all :: "char \<Rightarrow> string \<Rightarrow> string \<Rightarrow> string" where
  "replace_all c r s = concat (map (\<lambda>x. if x = c then r else [x]) s)"

text \<open>\<^verbatim>\<open>s.includes(t)\<close>: \<open>t\<close> occurs in \<open>s\<close> as a contiguous run of code units.\<close>

fun str_includes :: "string \<Rightarrow> string \<Rightarrow> bool" where
  "str_includes [] t = (t = [])"
| "str_includes (c # cs) t = (prefix t (c # cs) \<or> str_includes cs t)"

text \<open>
  The response object is modelled by the calls the handler makes on it, in order.
\<close>

datatype res_event =
    Status nat
  | Json string
  | SetHeader string string
  | Write string
  | End

text \<open>
  \<^verbatim>\<open>
  function writeTransformedChunk(res: any, rawText: string) {
      let textChunk = rawText.replace(/\n/g, '\\n').replace(/"/g, '\\"');
      res.write(`0:"${textChunk}"\n`);
  }
  \<close>
\<close>

definition escape_chunk :: "string \<Rightarrow> string" where
  "escape_chunk rawText =
     replace_all dquote [backslash, dquote] (replace_all newline [backslash, CHR ''n''] rawText)"

definition framed_line :: "string \<Rightarrow> string" where
  "framed_line rawText = ''0:'' @ [dquote] @ escape_chunk rawText @ [dquote, newline]"

definition writeTransformedChunk :: "res_event list \<Rightarrow> string \<Rightarrow> res_event list" where
  "writeTransformedChunk res rawText = res @ [Write (framed_line rawText)]"

section \<open>The persistent store\<close>

text \<open>
  The four collections the chat pipeline uses.  A message row carries the fields the
  caller supplies; its generated \<^verbatim>\<open>message_id\<close> (a fresh uuid) and \<^verbatim>\<open>created_date\<close> are
  read nowhere, and the table is a list, so that every put adds a row.  A counter
  attribute that is absent counts as \<open>0\<close>, which is how the store's \<^verbatim>\<open>ADD\<close> treats it.
  The balance attribute of a participant may be absent; when present it is an integer.
\<close>

datatype role = User | Assistant

record chat_message =
  role :: role
  content :: string

record message_row =
  row_conversation_id :: string
  row_challenge_id :: string
  row_participant_id :: string
  row_role :: role
  row_content :: string

record participant_item =
  balance :: "int option"

record challenge_item =
  level :: "string option"
  participants_count :: int
  messages_count :: int

record vault_password_item =
  password :: "string option"

record store =
  MESSAGES_TABLE :: "message_row list"
  PARTICIPANTS_TABLE :: "string \<times> string \<rightharpoonup> participant_item"
  CHALLENGES_TABLE :: "string \<rightharpoonup> challenge_item"
  VAULT_PASSWORDS_TABLE :: "string \<rightharpoonup> vault_password_item"

text \<open>
  Every call of the store client may reject.  The environment of one request says, for
  each call site, whether the call rejects.
\<close>

datatype store_call =
    QueryConversation
  | AddParticipantsCount
  | PutUserMessage
  | AddMessagesCount
  | AddBalance
  | GetParticipant
  | GetVaultPassword
  | GetChallenge
  | PutAssistantMessage

text \<open>The client calls: \<open>None\<close> is a rejected promise.\<close>

definition dynamodb_query_conversation ::
    "bool \<Rightarrow> store \<Rightarrow> string \<Rightarrow> nat \<Rightarrow> message_row list option" where
  "dynamodb_query_conversation rejects st convId limit =
     (if rejects then None
      else Some (take limit (filter (\<lambda>r. row_conversation_id r = convId) (MESSAGES_TABLE st))))"

definition dynamodb_put_message :: "bool \<Rightarrow> store \<Rightarrow> message_row \<Rightarrow> store option" where
  "dynamodb_put_message rejects st item =
     (if rejects then None else Some (st\<lparr>MESSAGES_TABLE := MESSAGES_TABLE st @ [item]\<rparr>))"

definition add_participants_count :: "int \<Rightarrow> challenge_item option \<Rightarrow> challenge_item" where
  "add_participants_count n it =
     (case it of
        None \<Rightarrow> \<lparr>level = None, participants_count = n, messages_count = 0\<rparr>
      | Some c \<Rightarrow> c\<lparr>participants_count := participants_count c + n\<rparr>)"

definition add_messages_count :: "int \<Rightarrow> challenge_item option \<Rightarrow> challenge_item" where
  "add_messages_count n it =
     (case it of
        None \<Rightarrow> \<lparr>level = None, participants_count = 0, messages_count = n\<rparr>
      | Some c \<Rightarrow> c\<lparr>messages_count := messages_count c + n\<rparr>)"

definition add_balance :: "int \<Rightarrow> participant_item option \<Rightarrow> participant_item" where
  "add_balance n it =
     (case it of
        None \<Rightarrow> \<lparr>balance = Some n\<rparr>
      | Some p \<Rightarrow> (case balance p of None \<Rightarrow> p\<lparr>balance := Some n\<rparr>
                                  | Some b \<Rightarrow> p\<lparr>balance := Some (b + n)\<rparr>))"

text \<open>The three \<^verbatim>\<open>ADD\<close> updates return the updated item (\<^verbatim>\<open>UPDATED_NEW\<close>) with the new store.\<close>

definition dynamodb_update_participants_count ::
    "bool \<Rightarrow> store \<Rightarrow> string \<Rightarrow> int \<Rightarrow> (challenge_item \<times> store) option" where
  "dynamodb_update_participants_count rejects st cid n =
     (if rejects then None
      else let it = add_participants_count n (CHALLENGES_TABLE st cid)
           in Some (it, st\<lparr>CHALLENGES_TABLE := (CHALLENGES_TABLE st)(cid \<mapsto> it)\<rparr>))"

definition dynamodb_update_messages_count ::
    "bool \<Rightarrow> store \<Rightarrow> string \<Rightarrow> int \<Rightarrow> (challenge_item \<times> store) option" where
  "dynamodb_update_messages_count rejects st cid n =
     (if rejects then None
      else let it = add_messages_count n (CHALLENGES_TABLE st cid)
           in Some (it, st\<lparr>CHALLENGES_TABLE := (CHALLENGES_TABLE st)(cid \<mapsto> it)\<rparr>))"

definition dynamodb_update_balance ::
    "bool \<Rightarrow> store \<Rightarrow> string \<times> string \<Rightarrow> int \<Rightarrow> (participant_item \<times> store) option" where
  "dynamodb_update_balance rejects st k n =
     (if rejects then None
      else let it = add_balance n (PARTICIPANTS_TABLE st k)
           in Some (it, st\<lparr>PARTICIPANTS_TABLE := (PARTICIPANTS_TABLE st)(k \<mapsto> it)\<rparr>))"

section \<open>Accounting store adapter\<close>

text \<open>
  \<^verbatim>\<open>
  const result = await dynamodb.query(params).promise();   // Limit: 2
  return result.Count === 0;
  } catch (error) { ... return false; }
  \<close>
\<close>

definition isFirstParticipantMessageInConversation ::
    "(store_call \<Rightarrow> bool) \<Rightarrow> store \<Rightarrow> string \<Rightarrow> bool" where
  "isFirstParticipantMessageInConversation rejects st conversation_id =
     (case dynamodb_query_conversation (rejects QueryConversation) st conversation_id 2 of
        Some items \<Rightarrow> length items = 0
      | None \<Rightarrow> False)"

text \<open>The update is attempted; a rejection is logged and swallowed.\<close>

definition incrementChallengeParticipants ::
    "(store_call \<Rightarrow> bool) \<Rightarrow> store \<Rightarrow> string \<Rightarrow> store" where
  "incrementChallengeParticipants rejects st challenge_id =
     (case dynamodb_update_participants_count (rejects AddParticipantsCount) st challenge_id 1 of
        Some (attrs, st') \<Rightarrow> st'
      | None \<Rightarrow> st)"

definition incrementChallengeMessageCount ::
    "(store_call \<Rightarrow> bool) \<Rightarrow> store \<Rightarrow> string \<Rightarrow> int option \<times> store" where
  "incrementChallengeMessageCount rejects st challenge_id =
     (case dynamodb_update_messages_count (rejects AddMessagesCount) st challenge_id 1 of
        Some (attrs, st') \<Rightarrow> (Some (messages_count attrs), st')
      | None \<Rightarrow> (None, st))"

definition decrementParticipantBalance ::
    "(store_call \<Rightarrow> bool) \<Rightarrow> store \<Rightarrow> string \<Rightarrow> string \<Rightarrow> int option \<times> store" where
  "decrementParticipantBalance rejects st challenge_id participant_id =
     (case dynamodb_update_balance (rejects AddBalance) st (challenge_id, participant_id) (- 1) of
        Some (attrs, st') \<Rightarrow> (balance attrs, st')
      | None \<Rightarrow> (None, st))"

text \<open>
  \<^verbatim>\<open>
  const response = await dynamodb.get(params).promise();
  if (!response.Item || typeof response.Item.balance === 'undefined') { return null; }
  return Number(response.Item.balance);
  } catch (error) { ... return null; }
  \<close>
\<close>

definition getParticipantBalance ::
    "(store_call \<Rightarrow> bool) \<Rightarrow> store \<Rightarrow> string \<Rightarrow> string \<Rightarrow> int option" where
  "getParticipantBalance rejects st challenge_id participant_id =
     (if rejects GetParticipant then None
      else case PARTICIPANTS_TABLE st (challenge_id, participant_id) of
             None \<Rightarrow> None
           | Some item \<Rightarrow> balance item)"

text \<open>\<^verbatim>\<open>a || b\<close> on a string: the empty string is falsy.\<close>

definition str_or :: "string \<Rightarrow> string \<Rightarrow> string" where
  "str_or a b = (if a = [] then b else a)"

text \<open>The row is put; a rejection is logged and swallowed.  \<open>site\<close> is the call site.\<close>

definition saveMessageToDb ::
    "(store_call \<Rightarrow> bool) \<Rightarrow> store_call \<Rightarrow> store \<Rightarrow> message_row \<Rightarrow> store" where
  "saveMessageToDb rejects site st item =
     (case dynamodb_put_message (rejects site) st item of
        Some st' \<Rightarrow> st'
      | None \<Rightarrow> st)"

text \<open>
  \<^verbatim>\<open>
  const isFirst = await isFirstParticipantMessageInConversation(conversation_id);
  if (isFirst) { await incrementChallengeParticipants(challenge_id); }
  await saveMessageToDb({ conversation_id: conversation_id || 'unknown_convo', ...,
                          role: 'user', content: userMessage });
  await incrementChallengeMessageCount(challenge_id);
  const newBalance = await decrementParticipantBalance(challenge_id, participant_id);
  \<close>
\<close>

definition handleUserMessage ::
    "(store_call \<Rightarrow> bool) \<Rightarrow> store \<Rightarrow> string \<Rightarrow> string \<Rightarrow> string \<Rightarrow> string \<Rightarrow> store" where
  "handleUserMessage rejects st challenge_id conversation_id participant_id userMessage =
     (let isFirst = isFirstParticipantMessageInConversation rejects st conversation_id;
          st1 = (if isFirst then incrementChallengeParticipants rejects st challenge_id else st);
          st2 = saveMessageToDb rejects PutUserMessage st1
                  \<lparr>row_conversation_id = str_or conversation_id ''unknown_convo'',
                   row_challenge_id = challenge_id,
                   row_participant_id = participant_id,
                   row_role = User,
                   row_content = userMessage\<rparr>;
          (count, st3) = incrementChallengeMessageCount rejects st2 challenge_id;
          (newBalance, st4) = decrementParticipantBalance rejects st3 challenge_id participant_id
      in st4)"


definition no_rejection :: "store_call \<Rightarrow> bool" where
  "no_rejection c = False"

section \<open>Vault secret resolver\<close>

text \<open>
  \<^verbatim>\<open>
  if (result.Item && result.Item.password) { return String(result.Item.password); }
  else { return ''; }
  } catch (err) { return ''; }
  \<close>
\<close>

definition getVaultPasswordFromDb :: "(store_call \<Rightarrow> bool) \<Rightarrow> store \<Rightarrow> string \<Rightarrow> string" where
  "getVaultPasswordFromDb rejects st challenge_id =
     (if rejects GetVaultPassword then []
      else case VAULT_PASSWORDS_TABLE st challenge_id of
             None \<Rightarrow> []
           | Some item \<Rightarrow> (case password item of
                            None \<Rightarrow> []
                          | Some p \<Rightarrow> if p \<noteq> [] then p else []))"

definition getChallengeInfoFromDb ::
    "(store_call \<Rightarrow> bool) \<Rightarrow> store \<Rightarrow> string \<Rightarrow> challenge_item option" where
  "getChallengeInfoFromDb rejects st challenge_id =
     (if rejects GetChallenge then None else CHALLENGES_TABLE st challenge_id)"

section \<open>Outbound notification\<close>

fun digits_of :: "nat \<Rightarrow> string" where
  "digits_of n =
     (if n < 10 then [char_of (48 + n)]
      else digits_of (n div 10) @ [char_of (48 + n mod 10)])"

declare digits_of.simps [simp del]

text \<open>
  The outcome of \<^verbatim>\<open>axios.post\<close>: it rejects with an error message, or it resolves with a
  status and a body.  \<open>notifySlackChannel\<close> returns \<open>None\<close> when it resolves and the
  message of the error it throws otherwise.
  \<^verbatim>\<open>
  try {
      const response = await axios.post(slackWebhookUrl, slackMessage, ...);
      if (response.status !== 200) {
          throw new Error(`Request to Slack returned an error ${response.status}, response text: ${response.data}`);
      }
  } catch (err: any) {
      throw new Error(`Slack notification error: ${err.message}`);
  }
  \<close>
\<close>

definition notifySlackChannel :: "string + nat \<times> string \<Rightarrow> string option" where
  "notifySlackChannel post =
     (case post of
        Inl message \<Rightarrow> Some (''Slack notification error: '' @ message)
      | Inr (status, data) \<Rightarrow>
          if status \<noteq> 200
          then Some (''Slack notification error: '' @ ''Request to Slack returned an error ''
                     @ digits_of status @ '', response text: '' @ data)
          else None)"

section \<open>Conversation orchestrator\<close>

record request =
  body_messages :: "chat_message list option"
  param_challenge_id :: "string option"
  param_conversation_id :: "string option"
  query_participant_id :: "string option"

text \<open>
  \<open>body_messages\<close> is \<open>None\<close> when there is no payload or \<^verbatim>\<open>payload.messages\<close> is not an
  array.  The collaborators of one request: which store calls reject, the webhook
  setting and the outcome of its post, the outcome of the primary agent's generation
  (the text is the trimmed text \<open>fetchAgent1Response\<close> returns), the fragments of the
  secondary agent's stream, and whether the stream or its usage promise rejects.
\<close>

record env =
  store_rejects :: "store_call \<Rightarrow> bool"
  SLACK_WEBHOOK_URL :: "string option"
  slack_response :: "string + nat \<times> string"
  generateText_result :: "string + string"
  textStream :: "string list"
  textStream_error :: "string option"
  usage_error :: "string option"

text \<open>
  What a request leaves behind: the store, the calls made on the response object, the
  generation calls issued (\<open>fetchAgent1Response\<close> with the messages, the password and the
  challenge id; \<open>fetchAgent2Response\<close> with the primary agent's text, the messages and the
  challenge id) and the webhook posts (url and text).  A step of the handler either
  returns or throws an error with a message.
\<close>

datatype agent_call =
    GenerateText "chat_message list" string string
  | StreamText string "chat_message list" string

record hstate =
  db :: store
  res :: "res_event list"
  agent_calls :: "agent_call list"
  slack_posts :: "(string \<times> string) list"

datatype completion = Returned | Threw string

definition truthy :: "string option \<Rightarrow> bool" where
  "truthy v = (case v of None \<Rightarrow> False | Some s \<Rightarrow> s \<noteq> [])"

definition opt_or :: "string option \<Rightarrow> string \<Rightarrow> string" where
  "opt_or v d = (case v of None \<Rightarrow> d | Some s \<Rightarrow> str_or s d)"

definition template_of :: "string option \<Rightarrow> string" where
  "template_of v = (case v of None \<Rightarrow> ''undefined'' | Some s \<Rightarrow> s)"

fun first_user :: "chat_message list \<Rightarrow> string option" where
  "first_user [] = None"
| "first_user (m # ms) = (if role m = User then Some (content m) else first_user ms)"

text \<open>The scan runs from the last message down to the first.\<close>

definition getLatestUserMessage :: "chat_message list \<Rightarrow> string option" where
  "getLatestUserMessage messages = first_user (rev messages)"

definition VAULT_CRACKED_VIDEO_COMPONENT :: string where
  "VAULT_CRACKED_VIDEO_COMPONENT =
     ''<div data-video='' @ [dquote]
     @ ''https://dev-medias-bucket.s3.us-east-1.amazonaws.com/unlocked_1.mp4'' @ [dquote]
     @ '' width='' @ [dquote] @ ''854'' @ [dquote]
     @ '' height='' @ [dquote] @ ''480'' @ [dquote] @ '' </div>''"

text \<open>The message opens with the party-popper sign, U+1F389, here as its four UTF-8 units.\<close>

definition finalRewardMsg :: string where
  "finalRewardMsg =
     [CHR 0xF0, CHR 0x9F, CHR 0x8E, CHR 0x89]
     @ '' OMG! You cracked me and the vault is one step away now!''
     @ [newline, newline] @ VAULT_CRACKED_VIDEO_COMPONENT"

definition respond_json :: "nat \<Rightarrow> string \<Rightarrow> hstate \<Rightarrow> hstate" where
  "respond_json code msg s = s\<lparr>res := res s @ [Status code, Json msg]\<rparr>"

definition assistant_row :: "string option \<Rightarrow> string \<Rightarrow> string \<Rightarrow> string \<Rightarrow> message_row" where
  "assistant_row conversation_id challenge_id participant_id text =
     \<lparr>row_conversation_id = opt_or conversation_id ''unknown_convo'',
      row_challenge_id = challenge_id,
      row_participant_id = participant_id,
      row_role = Assistant,
      row_content = text\<rparr>"

text \<open>
  \<^verbatim>\<open>
  for await (const chunk of agent2Result.textStream) {
      writeTransformedChunk(res, textChunk);
      agent2FullResponse += textChunk;
  }
  \<close>
\<close>

fun forward_stream :: "res_event list \<Rightarrow> string \<Rightarrow> string list \<Rightarrow> res_event list \<times> string" where
  "forward_stream r agent2FullResponse [] = (r, agent2FullResponse)"
| "forward_stream r agent2FullResponse (textChunk # chunks) =
     forward_stream (writeTransformedChunk r textChunk) (agent2FullResponse @ textChunk) chunks"

text \<open>
  The generation stage (step 6 of the handler): the single-agent flow on \<^verbatim>\<open>EASY\<close>, the
  two-agent flow on \<^verbatim>\<open>HARD\<close>, and the rejection of any other level.
\<close>

definition generate_easy ::
    "env \<Rightarrow> chat_message list \<Rightarrow> string \<Rightarrow> string \<Rightarrow> string \<Rightarrow> string option
      \<Rightarrow> hstate \<Rightarrow> completion \<times> hstate" where
  "generate_easy e messages dbVaultPassword challenge_id participant_id conversation_id s =
     (let s1 = s\<lparr>agent_calls :=
                  agent_calls s @ [GenerateText messages dbVaultPassword challenge_id]\<rparr>
      in case generateText_result e of
           Inl message \<Rightarrow> (Threw message, s1)
         | Inr text \<Rightarrow>
             (let s2 = s1\<lparr>db := saveMessageToDb (store_rejects e) PutAssistantMessage (db s1)
                               (assistant_row conversation_id challenge_id participant_id text)\<rparr>;
                  s3 = s2\<lparr>res := writeTransformedChunk (res s2) text @ [End]\<rparr>
              in (Returned, s3)))"

definition generate_hard ::
    "env \<Rightarrow> chat_message list \<Rightarrow> string \<Rightarrow> string \<Rightarrow> string \<Rightarrow> string option
      \<Rightarrow> hstate \<Rightarrow> completion \<times> hstate" where
  "generate_hard e messages dbVaultPassword challenge_id participant_id conversation_id s =
     (let s1 = s\<lparr>agent_calls :=
                  agent_calls s @ [GenerateText messages dbVaultPassword challenge_id]\<rparr>
      in case generateText_result e of
           Inl message \<Rightarrow> (Threw message, s1)
         | Inr agent1Response \<Rightarrow>
             (let s2 = s1\<lparr>agent_calls :=
                          agent_calls s1 @ [StreamText agent1Response messages challenge_id]\<rparr>;
                  (r, agent2FullResponse) = forward_stream (res s2) [] (textStream e);
                  s3 = s2\<lparr>res := r\<rparr>
              in case textStream_error e of
                   Some message \<Rightarrow> (Threw message, s3)
                 | None \<Rightarrow>
                     (let s4 = s3\<lparr>db := saveMessageToDb (store_rejects e) PutAssistantMessage (db s3)
                                       (assistant_row conversation_id challenge_id participant_id
                                          agent2FullResponse)\<rparr>
                      in case usage_error e of
                           Some message \<Rightarrow> (Threw message, s4)
                         | None \<Rightarrow> (Returned, s4\<lparr>res := res s4 @ [End]\<rparr>))))"

definition generate ::
    "env \<Rightarrow> chat_message list \<Rightarrow> string \<Rightarrow> string \<Rightarrow> string \<Rightarrow> string option
      \<Rightarrow> string option \<Rightarrow> hstate \<Rightarrow> completion \<times> hstate" where
  "generate e messages dbVaultPassword challenge_id participant_id conversation_id challengeLevel s0 =
     (let s = s0\<lparr>res := res s0 @ [SetHeader ''Content-Type'' ''text/plain; charset=utf-8'',
                                   Status 200]\<rparr>
      in if challengeLevel = Some ''EASY''
         then generate_easy e messages dbVaultPassword challenge_id participant_id conversation_id s
         else if challengeLevel = Some ''HARD''
         then generate_hard e messages dbVaultPassword challenge_id participant_id conversation_id s
         else (Returned,
               respond_json 400 (''Unknown challenge level: '' @ template_of challengeLevel) s))"

text \<open>
  The cracked path (step 5), entered when the latest user message includes the password.
  \<^verbatim>\<open>
  if (process.env.SLACK_WEBHOOK_URL && conversation_id) {
      await notifySlackChannel(process.env.SLACK_WEBHOOK_URL,
          `The vault has been cracked in conversation ${conversation_id}!`);
  }
  await saveMessageToDb({ ..., role: 'assistant', content: finalRewardMsg });
  res.set('Content-Type', 'text/plain; charset=utf-8');
  writeTransformedChunk(res, finalRewardMsg);
  res.end();
  \<close>
\<close>

definition reward_response :: "env \<Rightarrow> string \<Rightarrow> string \<Rightarrow> string option \<Rightarrow> hstate \<Rightarrow> hstate" where
  "reward_response e challenge_id participant_id conversation_id s =
     (let s1 = s\<lparr>db := saveMessageToDb (store_rejects e) PutAssistantMessage (db s)
                      (assistant_row conversation_id challenge_id participant_id finalRewardMsg)\<rparr>
      in s1\<lparr>res := writeTransformedChunk
                     (res s1 @ [SetHeader ''Content-Type'' ''text/plain; charset=utf-8''])
                     finalRewardMsg @ [End]\<rparr>)"

definition cracked ::
    "env \<Rightarrow> string \<Rightarrow> string \<Rightarrow> string option \<Rightarrow> hstate \<Rightarrow> completion \<times> hstate" where
  "cracked e challenge_id participant_id conversation_id s =
     (if truthy (SLACK_WEBHOOK_URL e) \<and> truthy conversation_id
      then (let s1 = s\<lparr>slack_posts := slack_posts s @
                         [(template_of (SLACK_WEBHOOK_URL e),
                           ''The vault has been cracked in conversation ''
                             @ template_of conversation_id @ ''!'')]\<rparr>
            in case notifySlackChannel (slack_response e) of
                 Some message \<Rightarrow> (Threw message, s1)
               | None \<Rightarrow> (Returned, reward_response e challenge_id participant_id conversation_id s1))
      else (Returned, reward_response e challenge_id participant_id conversation_id s))"

text \<open>
  Steps 3 to 6, for a request whose ids, challenge and latest user message were found:
  balance check, accounting of the user message, password fetch, crack check, generation.
\<close>

definition accepted_steps ::
    "env \<Rightarrow> chat_message list \<Rightarrow> string \<Rightarrow> string \<Rightarrow> string option \<Rightarrow> string option
      \<Rightarrow> string \<Rightarrow> hstate \<Rightarrow> completion \<times> hstate" where
  "accepted_steps e messages challenge_id participant_id conversation_id challengeLevel
       latestUserMessage s =
     (let s1 = s\<lparr>db := handleUserMessage (store_rejects e) (db s) challenge_id
                         (opt_or conversation_id ''unknown_convo'') participant_id
                         latestUserMessage\<rparr>;
          dbVaultPassword = getVaultPasswordFromDb (store_rejects e) (db s1) challenge_id
      in if dbVaultPassword = []
         then (Returned,
               respond_json 500 ''Vault password not configured or not found in DB.'' s1)
         else if str_includes latestUserMessage dbVaultPassword
         then cracked e challenge_id participant_id conversation_id s1
         else generate e messages dbVaultPassword challenge_id participant_id conversation_id
                challengeLevel s1)"

definition balance_steps ::
    "env \<Rightarrow> chat_message list \<Rightarrow> string \<Rightarrow> string \<Rightarrow> string option \<Rightarrow> string option
      \<Rightarrow> string \<Rightarrow> hstate \<Rightarrow> completion \<times> hstate" where
  "balance_steps e messages challenge_id participant_id conversation_id challengeLevel
       latestUserMessage s =
     (case getParticipantBalance (store_rejects e) (db s) challenge_id participant_id of
        None \<Rightarrow> (Returned, respond_json 400 ''Insufficient balance to send a message.'' s)
      | Some bal \<Rightarrow>
          if bal \<le> 0
          then (Returned, respond_json 400 ''Insufficient balance to send a message.'' s)
          else accepted_steps e messages challenge_id participant_id conversation_id
                 challengeLevel latestUserMessage s)"

text \<open>The body of the handler's \<^verbatim>\<open>try\<close> block, from the payload check on.\<close>

definition try_block :: "env \<Rightarrow> request \<Rightarrow> hstate \<Rightarrow> completion \<times> hstate" where
  "try_block e req s =
     (case body_messages req of
        None \<Rightarrow> (Returned, respond_json 400 ''Invalid payload format.'' s)
      | Some messages \<Rightarrow>
          if \<not> truthy (param_challenge_id req)
          then (Returned, respond_json 400 ''Missing challenge_id in request path'' s)
          else if \<not> truthy (query_participant_id req)
          then (Returned, respond_json 400 ''Missing participant_id in query'' s)
          else (let challenge_id = template_of (param_challenge_id req);
                    participant_id = template_of (query_participant_id req);
                    conversation_id = param_conversation_id req
                in case getChallengeInfoFromDb (store_rejects e) (db s) challenge_id of
                     None \<Rightarrow>
                       (Returned,
                        respond_json 500 ''No challenge info found or DynamoDB error.'' s)
                   | Some challengeInfo \<Rightarrow>
                       (let latestUserMessage = getLatestUserMessage messages
                        in if \<not> truthy latestUserMessage
                           then (Returned, respond_json 400 ''No user message found.'' s)
                           else balance_steps e messages challenge_id participant_id
                                  conversation_id (level challengeInfo)
                                  (template_of latestUserMessage) s)))"

text \<open>
  \<^verbatim>\<open>
  } catch (error: any) {
      return res.status(500).json({ error: error.message || 'Internal Server Error' });
  }
  \<close>
\<close>

definition handleStreamData :: "env \<Rightarrow> request \<Rightarrow> store \<Rightarrow> hstate" where
  "handleStreamData e req st =
     (case try_block e req \<lparr>db = st, res = [], agent_calls = [], slack_posts = []\<rparr> of
        (Returned, s) \<Rightarrow> s
      | (Threw message, s) \<Rightarrow> respond_json 500 (str_or message ''Internal Server Error'') s)"

section \<open>Reading a request against the handler's checks\<close>

text \<open>
  The values the handler computes on its way, named so that the properties can refer to
  them: the ids as the handler reads them, the checks that precede the balance check, the
  balance it reads, the store after the accounting of the user message, and the level and
  password it fetches.
\<close>

definition req_messages :: "request \<Rightarrow> chat_message list" where
  "req_messages req = (case body_messages req of None \<Rightarrow> [] | Some ms \<Rightarrow> ms)"

definition req_challenge_id :: "request \<Rightarrow> string" where
  "req_challenge_id req = template_of (param_challenge_id req)"

definition req_participant_id :: "request \<Rightarrow> string" where
  "req_participant_id req = template_of (query_participant_id req)"

definition req_latest :: "request \<Rightarrow> string" where
  "req_latest req = template_of (getLatestUserMessage (req_messages req))"

definition passes_validation :: "env \<Rightarrow> request \<Rightarrow> store \<Rightarrow> bool" where
  "passes_validation e req st =
     (body_messages req \<noteq> None \<and> truthy (param_challenge_id req)
      \<and> truthy (query_participant_id req)
      \<and> getChallengeInfoFromDb (store_rejects e) st (req_challenge_id req) \<noteq> None
      \<and> truthy (getLatestUserMessage (req_messages req)))"

definition balance_read :: "env \<Rightarrow> request \<Rightarrow> store \<Rightarrow> int option" where
  "balance_read e req st =
     getParticipantBalance (store_rejects e) st (req_challenge_id req) (req_participant_id req)"

definition accepted :: "env \<Rightarrow> request \<Rightarrow> store \<Rightarrow> bool" where
  "accepted e req st =
     (passes_validation e req st
      \<and> (case balance_read e req st of None \<Rightarrow> False | Some b \<Rightarrow> 0 < b))"

definition accounted :: "env \<Rightarrow> request \<Rightarrow> store \<Rightarrow> store" where
  "accounted e req st =
     handleUserMessage (store_rejects e) st (req_challenge_id req)
       (opt_or (param_conversation_id req) ''unknown_convo'') (req_participant_id req)
       (req_latest req)"

definition req_level :: "env \<Rightarrow> request \<Rightarrow> store \<Rightarrow> string option" where
  "req_level e req st =
     (case getChallengeInfoFromDb (store_rejects e) st (req_challenge_id req) of
        None \<Rightarrow> None
      | Some challengeInfo \<Rightarrow> level challengeInfo)"

definition vault_password_of :: "env \<Rightarrow> request \<Rightarrow> store \<Rightarrow> string" where
  "vault_password_of e req st =
     getVaultPasswordFromDb (store_rejects e) st (req_challenge_id req)"

definition initial :: "store \<Rightarrow> hstate" where
  "initial st = \<lparr>db = st, res = [], agent_calls = [], slack_posts = []\<rparr>"

definition notification_skipped :: "env \<Rightarrow> request \<Rightarrow> bool" where
  "notification_skipped e req =
     (\<not> (truthy (SLACK_WEBHOOK_URL e) \<and> truthy (param_conversation_id req)))"

definition the_reward_row :: "request \<Rightarrow> message_row" where
  "the_reward_row req =
     assistant_row (param_conversation_id req) (req_challenge_id req) (req_participant_id req)
       finalRewardMsg"

text \<open>The webhook post of the cracked path: url and text.\<close>

definition crack_notice :: "env \<Rightarrow> request \<Rightarrow> string \<times> string" where
  "crack_notice e req =
     (template_of (SLACK_WEBHOOK_URL e),
      ''The vault has been cracked in conversation ''
        @ template_of (param_conversation_id req) @ ''!'')"

definition writes :: "res_event list \<Rightarrow> string list" where
  "writes r = concat (map (\<lambda>ev. case ev of Write line \<Rightarrow> [line] | _ \<Rightarrow> []) r)"

text \<open>
  A request that lacks what the handler requires: no messages array, an array without a
  user-role entry (the empty array included), no challenge id or no participant id.  For
  such a request the challenge lookup decides the response when the array and both ids are
  there and the lookup finds nothing.
\<close>

definition lacks_required_input :: "request \<Rightarrow> bool" where
  "lacks_required_input req =
     (case body_messages req of
        None \<Rightarrow> True
      | Some messages \<Rightarrow>
          list_all (\<lambda>m. role m \<noteq> User) messages
          \<or> \<not> truthy (param_challenge_id req) \<or> \<not> truthy (query_participant_id req))"

definition challenge_lookup_decides :: "env \<Rightarrow> request \<Rightarrow> store \<Rightarrow> bool" where
  "challenge_lookup_decides e req st =
     (body_messages req \<noteq> None \<and> truthy (param_challenge_id req)
      \<and> truthy (query_participant_id req)
      \<and> getChallengeInfoFromDb (store_rejects e) st (req_challenge_id req) = None)"

section \<open>Sequential delivery\<close>


section \<open>Concrete stores, requests and collaborators\<close>

text \<open>
  A challenge \<open>c1\<close> of level \<^verbatim>\<open>EASY\<close> with password \<open>sesame\<close>, a participant \<open>p1\<close> with
  balance \<open>1\<close>, a request with the single user message \<open>hello\<close>, and collaborators that
  all succeed; then the variations the examples use.
\<close>

definition empty_store :: store where
  "empty_store = \<lparr>MESSAGES_TABLE = [], PARTICIPANTS_TABLE = Map.empty,
     CHALLENGES_TABLE = Map.empty, VAULT_PASSWORDS_TABLE = Map.empty\<rparr>"

definition demo_store :: store where
  "demo_store =
     \<lparr>MESSAGES_TABLE = [],
      PARTICIPANTS_TABLE = [(''c1'', ''p1'') \<mapsto> \<lparr>balance = Some 1\<rparr>],
      CHALLENGES_TABLE =
        [''c1'' \<mapsto> \<lparr>level = Some ''EASY'', participants_count = 0, messages_count = 0\<rparr>],
      VAULT_PASSWORDS_TABLE = [''c1'' \<mapsto> \<lparr>password = Some ''sesame''\<rparr>]\<rparr>"

definition demo_request :: request where
  "demo_request =
     \<lparr>body_messages = Some [\<lparr>role = User, content = ''hello''\<rparr>],
      param_challenge_id = Some ''c1'',
      param_conversation_id = Some ''conv1'',
      query_participant_id = Some ''p1''\<rparr>"

definition demo_env :: env where
  "demo_env =
     \<lparr>store_rejects = no_rejection,
      SLACK_WEBHOOK_URL = None,
      slack_response = Inr (200, ''ok''),
      generateText_result = Inr ''no'',
      textStream = [''a'', ''b''],
      textStream_error = None,
      usage_error = None\<rparr>"

definition cracking_request :: request where
  "cracking_request = demo_request\<lparr>body_messages := Some [\<lparr>role = User, content = ''open sesame''\<rparr>]\<rparr>"

definition hard_store :: store where
  "hard_store = demo_store\<lparr>CHALLENGES_TABLE :=
     [''c1'' \<mapsto> \<lparr>level = Some ''HARD'', participants_count = 0, messages_count = 0\<rparr>]\<rparr>"

definition medium_store :: store where
  "medium_store = demo_store\<lparr>CHALLENGES_TABLE :=
     [''c1'' \<mapsto> \<lparr>level = Some ''MEDIUM'', participants_count = 0, messages_count = 0\<rparr>]\<rparr>"

definition slack_down_env :: env where
  "slack_down_env = demo_env\<lparr>SLACK_WEBHOOK_URL := Some ''https://hooks.example/T1'',
     slack_response := Inl ''timeout''\<rparr>"

section \<open>Contract binding cache\<close>

text \<open>
  \<^verbatim>\<open>const contractCache: Record<string, CachedContractInfo> = {};\<close>
  The cache is a plain JavaScript object, so its prototype is \<^verbatim>\<open>Object.prototype\<close>.  The
  model keeps what the cache functions can change and read: the own properties of the
  object in enumeration order, the \<^verbatim>\<open>lastUsed\<close> property of \<^verbatim>\<open>Object.prototype\<close> (absent at
  the start), and the \<^verbatim>\<open>lastUsed\<close> properties of the built-in functions of
  \<^verbatim>\<open>Object.prototype\<close>.  A binding is the address and the parsed interface description it
  was constructed from.
\<close>

record contract =
  contract_address :: string
  contract_abi :: string

record cached_contract_info =
  contract :: contract
  lastUsed :: nat

definition MAX_CONTRACTS :: nat where
  "MAX_CONTRACTS = 3"

record cache_heap =
  own_entries :: "(string \<times> cached_contract_info) list"
  prototype_lastUsed :: "nat option"
  builtin_lastUsed :: "string \<rightharpoonup> nat"

definition empty_heap :: cache_heap where
  "empty_heap = \<lparr>own_entries = [], prototype_lastUsed = None, builtin_lastUsed = Map.empty\<rparr>"

text \<open>
  The properties every plain object inherits: the built-in functions, none of them
  enumerable, and the accessor \<^verbatim>\<open>__proto__\<close>, whose value is \<^verbatim>\<open>Object.prototype\<close> itself.
\<close>

definition builtin_names :: "string list" where
  "builtin_names =
     [''constructor'', ''__defineGetter__'', ''__defineSetter__'', ''hasOwnProperty'',
      ''__lookupGetter__'', ''__lookupSetter__'', ''isPrototypeOf'',
      ''propertyIsEnumerable'', ''toString'', ''valueOf'', ''toLocaleString'']"

datatype js_value =
    Undefined
  | Entry cached_contract_info
  | ObjectPrototype
  | BuiltinFunction string
  | Number nat

text \<open>
  \<^verbatim>\<open>contractCache[k]\<close>: an own property first, then the prototype.  \<^verbatim>\<open>Object.prototype\<close> has
  a property \<^verbatim>\<open>lastUsed\<close> only after the assignment in the hit branch has put it there.
\<close>

definition get_property :: "cache_heap \<Rightarrow> string \<Rightarrow> js_value" where
  "get_property heap k =
     (case map_of (own_entries heap) k of
        Some info \<Rightarrow> Entry info
      | None \<Rightarrow>
          if k = ''__proto__'' then ObjectPrototype
          else if k \<in> set builtin_names then BuiltinFunction k
          else if k = ''lastUsed''
          then (case prototype_lastUsed heap of None \<Rightarrow> Undefined | Some t \<Rightarrow> Number t)
          else Undefined)"

fun js_truthy :: "js_value \<Rightarrow> bool" where
  "js_truthy Undefined = False"
| "js_truthy (Number n) = (n \<noteq> 0)"
| "js_truthy (Entry info) = True"
| "js_truthy ObjectPrototype = True"
| "js_truthy (BuiltinFunction f) = True"

text \<open>
  The own keys of an object are enumerated with the array indices first (canonical
  decimal strings up to \<open>2\<^sup>3\<^sup>2 - 2\<close>) in ascending numeric order, then the other keys in
  the order of their creation.  \<^verbatim>\<open>contractCache[k] = v\<close> keeps the place of an existing own
  key and puts a new one where the enumeration order has it.
\<close>

definition digit_value :: "char \<Rightarrow> nat" where
  "digit_value c = length (takeWhile (\<lambda>d. d \<noteq> c) ''0123456789'')"

definition decimal_value :: "string \<Rightarrow> nat" where
  "decimal_value k = foldl (\<lambda>a c. 10 * a + digit_value c) 0 k"

definition is_array_index :: "string \<Rightarrow> bool" where
  "is_array_index k =
     (k \<noteq> [] \<and> list_all (\<lambda>c. c \<in> set ''0123456789'') k
      \<and> (if hd k = CHR ''0'' then k = ''0'' else True)
      \<and> decimal_value k \<le> 4294967294)"

fun set_own :: "(string \<times> cached_contract_info) list \<Rightarrow> string \<Rightarrow> cached_contract_info
      \<Rightarrow> (string \<times> cached_contract_info) list" where
  "set_own [] k v = [(k, v)]"
| "set_own (entry # rest) k v =
     (if fst entry = k then (k, v) # rest
      else if k \<notin> set (map fst rest)
              \<and> (if is_array_index k
                  then (if is_array_index (fst entry)
                        then decimal_value k < decimal_value (fst entry) else True)
                  else False)
      then (k, v) # entry # rest
      else entry # set_own rest k v)"

text \<open>
  \<^verbatim>\<open>for (const challengeId in contractCache)\<close> visits the own keys and then the enumerable
  keys of the prototype that no own key shadows: only \<^verbatim>\<open>lastUsed\<close>, once it exists.  The
  loop reads \<^verbatim>\<open>contractCache[challengeId].lastUsed\<close>; for the inherited key the value is a
  number, whose \<^verbatim>\<open>lastUsed\<close> is again the one of \<^verbatim>\<open>Object.prototype\<close>.
  \<^verbatim>\<open>
  let oldestChallenge: string | null = null;
  let oldestTimestamp = Infinity;
  for (const challengeId in contractCache) {
      if (contractCache[challengeId].lastUsed < oldestTimestamp) {
          oldestTimestamp = contractCache[challengeId].lastUsed;
          oldestChallenge = challengeId;
      }
  }
  if (oldestChallenge) { delete contractCache[oldestChallenge]; }
  \<close>
  The final test is one of truthiness; \<^verbatim>\<open>delete\<close> removes an own property and does nothing
  for a key that is not one.
\<close>

definition for_in_items :: "cache_heap \<Rightarrow> (string \<times> nat) list" where
  "for_in_items heap =
     map (\<lambda>entry. (fst entry, lastUsed (snd entry))) (own_entries heap)
     @ (case prototype_lastUsed heap of
          None \<Rightarrow> []
        | Some t \<Rightarrow> if ''lastUsed'' \<in> set (map fst (own_entries heap)) then []
                    else [(''lastUsed'', t)])"

fun scan_oldest :: "(string \<times> nat) list \<Rightarrow> string option \<times> enat \<Rightarrow> string option \<times> enat" where
  "scan_oldest [] acc = acc"
| "scan_oldest ((challengeId, t) # rest) (oldestChallenge, oldestTimestamp) =
     (if enat t < oldestTimestamp
      then scan_oldest rest (Some challengeId, enat t)
      else scan_oldest rest (oldestChallenge, oldestTimestamp))"

definition delete_own :: "string \<Rightarrow> cache_heap \<Rightarrow> cache_heap" where
  "delete_own k heap =
     heap\<lparr>own_entries := filter (\<lambda>entry. fst entry \<noteq> k) (own_entries heap)\<rparr>"

definition evictOldestContract :: "cache_heap \<Rightarrow> cache_heap" where
  "evictOldestContract heap =
     (case fst (scan_oldest (for_in_items heap) (None, \<infinity>)) of
        None \<Rightarrow> heap
      | Some oldestChallenge \<Rightarrow>
          if oldestChallenge \<noteq> [] then delete_own oldestChallenge heap else heap)"

text \<open>
  Loading a binding (steps 2 and 3 of \<open>getContractForChallenge\<close>): the metadata row is
  read, the address validated, the interface description parsed, the binding
  constructed.  The store read, the address check, the parser and the constructor are
  collaborators; each of the last three may fail.  \<open>strict_mode\<close> says whether the module runs
  as strict code, where an assignment to a property of a number throws.
\<close>

record contract_item =
  item_contract_address :: "string option"
  item_contract_abi :: "string option"

record chain_env =
  get_contract_item :: "string \<Rightarrow> contract_item option option"
  isAddress :: "string \<Rightarrow> bool"
  json_parse :: "string \<Rightarrow> string option"
  contract_constructs :: "string \<Rightarrow> string \<Rightarrow> bool"
  strict_mode :: bool

datatype cache_error =
    StoreRejected
  | NoContractData string
  | InvalidAddress string
  | NoAbi string
  | AbiSyntaxError
  | ContractConstructionError
  | TypeError

definition load_contract :: "chain_env \<Rightarrow> string \<Rightarrow> cache_error + contract" where
  "load_contract env challengeId =
     (case get_contract_item env challengeId of
        None \<Rightarrow> Inl StoreRejected
      | Some None \<Rightarrow> Inl (NoContractData challengeId)
      | Some (Some item) \<Rightarrow>
          (case item_contract_address item of
             None \<Rightarrow> Inl (InvalidAddress ''undefined'')
           | Some contractAddress \<Rightarrow>
               if \<not> isAddress env contractAddress then Inl (InvalidAddress contractAddress)
               else if truthy (item_contract_abi item)
               then (case json_parse env (template_of (item_contract_abi item)) of
                       None \<Rightarrow> Inl AbiSyntaxError
                     | Some contractAbi \<Rightarrow>
                         if contract_constructs env contractAddress contractAbi
                         then Inr \<lparr>contract_address = contractAddress,
                                  contract_abi = contractAbi\<rparr>
                         else Inl ContractConstructionError)
               else Inl (NoAbi challengeId)))"

text \<open>
  Steps 4 and 5, which run without suspension:
  \<^verbatim>\<open>
  if (Object.keys(contractCache).length >= MAX_CONTRACTS) { evictOldestContract(); }
  contractCache[challengeId] = { contract: newContract, lastUsed: Date.now() };
  \<close>
\<close>

definition store_binding :: "nat \<Rightarrow> cache_heap \<Rightarrow> string \<Rightarrow> contract \<Rightarrow> cache_heap" where
  "store_binding now heap challengeId newContract =
     (let heap1 = (if length (own_entries heap) \<ge> MAX_CONTRACTS
                   then evictOldestContract heap else heap)
      in heap1\<lparr>own_entries :=
                 set_own (own_entries heap1) challengeId
                   \<lparr>contract = newContract, lastUsed = now\<rparr>\<rparr>)"

text \<open>
  \<^verbatim>\<open>
  if (contractCache[challengeId]) {
      contractCache[challengeId].lastUsed = Date.now();
      return contractCache[challengeId].contract;
  }
  \<close>
  The test is one of truthiness on whatever the lookup finds.  For an own entry the
  assignment updates the entry.  For \<^verbatim>\<open>__proto__\<close> it creates or updates
  \<^verbatim>\<open>Object.prototype.lastUsed\<close>, and for a built-in function the property of that function;
  both have no \<^verbatim>\<open>contract\<close>, so the result is \<^verbatim>\<open>undefined\<close> (\<open>Inr None\<close>).  For a number
  the assignment throws in strict code and does nothing otherwise.  The branch is entered
  only with a truthy value, so its last case is never reached.
\<close>

definition touch_own :: "cache_heap \<Rightarrow> string \<Rightarrow> nat \<Rightarrow> cache_heap" where
  "touch_own heap challengeId now =
     heap\<lparr>own_entries :=
            map (\<lambda>entry. if fst entry = challengeId
                         then (fst entry, (snd entry)\<lparr>lastUsed := now\<rparr>) else entry)
              (own_entries heap)\<rparr>"

definition hit_branch ::
    "chain_env \<Rightarrow> nat \<Rightarrow> cache_heap \<Rightarrow> string \<Rightarrow> js_value
      \<Rightarrow> (cache_error + contract option) \<times> cache_heap" where
  "hit_branch env now heap challengeId found =
     (case found of
        Entry info \<Rightarrow> (Inr (Some (contract info)), touch_own heap challengeId now)
      | ObjectPrototype \<Rightarrow> (Inr None, heap\<lparr>prototype_lastUsed := Some now\<rparr>)
      | BuiltinFunction f \<Rightarrow>
          (Inr None, heap\<lparr>builtin_lastUsed := (builtin_lastUsed heap)(f \<mapsto> now)\<rparr>)
      | Number n \<Rightarrow> if strict_mode env then (Inl TypeError, heap) else (Inr None, heap)
      | Undefined \<Rightarrow> (Inr None, heap))"

definition getContractForChallenge ::
    "chain_env \<Rightarrow> nat \<Rightarrow> cache_heap \<Rightarrow> string
      \<Rightarrow> (cache_error + contract option) \<times> cache_heap" where
  "getContractForChallenge env now heap challengeId =
     (if js_truthy (get_property heap challengeId)
      then hit_branch env now heap challengeId (get_property heap challengeId)
      else (case load_contract env challengeId of
              Inl err \<Rightarrow> (Inl err, heap)
            | Inr newContract \<Rightarrow>
                (Inr (Some newContract), store_binding now heap challengeId newContract)))"

text \<open>A sequence of gets, each with the clock reading at its time.\<close>

fun run_gets :: "chain_env \<Rightarrow> cache_heap \<Rightarrow> (nat \<times> string) list \<Rightarrow> cache_heap" where
  "run_gets env heap [] = heap"
| "run_gets env heap ((now, challengeId) # calls) =
     run_gets env (snd (getContractForChallenge env now heap challengeId)) calls"

text \<open>A metadata table that has a well-formed row for every id.\<close>

definition demo_chain :: chain_env where
  "demo_chain =
     \<lparr>get_contract_item =
        (\<lambda>challengeId. Some (Some \<lparr>item_contract_address = Some ''0x01'',
                                     item_contract_abi = Some ''[]''\<rparr>)),
      isAddress = (\<lambda>a. True),
      json_parse = (\<lambda>abi. Some abi),
      contract_constructs = (\<lambda>a abi. True),
      strict_mode = True\<rparr>"

definition demo_binding :: contract where
  "demo_binding = \<lparr>contract_address = ''0x01'', contract_abi = ''[]''\<rparr>"

section \<open>Properties\<close>

subsection \<open>Framing\<close>

lemma str_includes_sublist: "str_includes s t = sublist t s"
  by (induction s) (auto simp: sublist_Cons_right)

text \<open>
  C10.  The framing is not injective: the fragment that is a single line feed and the
  two-character fragment backslash, \<open>n\<close> are distinct and are written as the same framed
  line, since a backslash of the input is left as it is.
\<close>

theorem writeTransformedChunk_not_injective:
  "[newline] \<noteq> [backslash, CHR ''n''] \<and>
   writeTransformedChunk r [newline] = writeTransformedChunk r [backslash, CHR ''n'']"
  by (simp add: writeTransformedChunk_def framed_line_def escape_chunk_def replace_all_def
      newline_def backslash_def dquote_def)

subsection \<open>Accounting\<close>



lemma handleUserMessage_vault [simp]:
  "VAULT_PASSWORDS_TABLE (handleUserMessage rejects st c conv p m) = VAULT_PASSWORDS_TABLE st"
  by (simp add: handleUserMessage_def Let_def incrementChallengeParticipants_def
      saveMessageToDb_def incrementChallengeMessageCount_def decrementParticipantBalance_def
      dynamodb_update_participants_count_def dynamodb_put_message_def
      dynamodb_update_messages_count_def dynamodb_update_balance_def
      split: prod.splits option.splits)

lemma handleUserMessage_rows:
  "MESSAGES_TABLE (handleUserMessage rejects st c conv p m) =
     (if rejects PutUserMessage then MESSAGES_TABLE st
      else MESSAGES_TABLE st @ [\<lparr>row_conversation_id = str_or conv ''unknown_convo'',
             row_challenge_id = c, row_participant_id = p, row_role = User, row_content = m\<rparr>])"
  by (simp add: handleUserMessage_def Let_def incrementChallengeParticipants_def
      saveMessageToDb_def incrementChallengeMessageCount_def decrementParticipantBalance_def
      dynamodb_update_participants_count_def dynamodb_put_message_def
      dynamodb_update_messages_count_def dynamodb_update_balance_def
      split: prod.splits option.splits)






subsection \<open>The handler up to the balance check\<close>

lemma initial_sel [simp]:
  "db (initial st) = st" "res (initial st) = []"
  "agent_calls (initial st) = []" "slack_posts (initial st) = []"
  by (simp_all add: initial_def)

lemma initial_db_update: "(initial st)\<lparr>db := d\<rparr> = initial d"
  by (simp add: initial_def)

lemma respond_json_initial:
  "respond_json code msg (initial st) =
     \<lparr>db = st, res = [Status code, Json msg], agent_calls = [], slack_posts = []\<rparr>"
  by (simp add: respond_json_def initial_def)

lemma handleStreamData_initial:
  "handleStreamData e req st =
     (case try_block e req (initial st) of
        (Returned, s) \<Rightarrow> s
      | (Threw message, s) \<Rightarrow> respond_json 500 (str_or message ''Internal Server Error'') s)"
  by (simp add: handleStreamData_def initial_def)

lemma try_block_validated:
  "passes_validation e req st \<Longrightarrow>
   try_block e req (initial st) =
     balance_steps e (req_messages req) (req_challenge_id req) (req_participant_id req)
       (param_conversation_id req) (req_level e req st) (req_latest req) (initial st)"
  by (auto simp: passes_validation_def try_block_def req_messages_def req_challenge_id_def
      req_participant_id_def req_level_def req_latest_def Let_def
      split: option.splits)

lemma handle_insufficient:
  assumes "passes_validation e req st"
      and "balance_read e req st = None \<or> (\<exists>b. balance_read e req st = Some b \<and> b \<le> 0)"
  shows "handleStreamData e req st =
           \<lparr>db = st, res = [Status 400, Json ''Insufficient balance to send a message.''],
            agent_calls = [], slack_posts = []\<rparr>"
proof -
  from assms(2)
  have "balance_steps e (req_messages req) (req_challenge_id req) (req_participant_id req)
       (param_conversation_id req) (req_level e req st) (req_latest req) (initial st)
     = (Returned, respond_json 400 ''Insufficient balance to send a message.'' (initial st))"
    by (auto simp: balance_steps_def balance_read_def)
  then show ?thesis
    by (simp add: handleStreamData_initial try_block_validated [OF assms(1)]
        respond_json_initial)
qed

lemma try_block_accepted:
  assumes "accepted e req st"
  shows "try_block e req (initial st) =
     (if vault_password_of e req st = []
      then (Returned, respond_json 500 ''Vault password not configured or not found in DB.''
                        (initial (accounted e req st)))
      else if str_includes (req_latest req) (vault_password_of e req st)
      then cracked e (req_challenge_id req) (req_participant_id req) (param_conversation_id req)
             (initial (accounted e req st))
      else generate e (req_messages req) (vault_password_of e req st) (req_challenge_id req)
             (req_participant_id req) (param_conversation_id req) (req_level e req st)
             (initial (accounted e req st)))"
proof -
  from assms have v: "passes_validation e req st" by (simp add: accepted_def)
  from assms obtain b where b: "balance_read e req st = Some b" "0 < b"
    by (auto simp: accepted_def split: option.splits)
  have "try_block e req (initial st) =
     balance_steps e (req_messages req) (req_challenge_id req) (req_participant_id req)
       (param_conversation_id req) (req_level e req st) (req_latest req) (initial st)"
    by (rule try_block_validated [OF v])
  also from b have "\<dots> =
     accepted_steps e (req_messages req) (req_challenge_id req) (req_participant_id req)
       (param_conversation_id req) (req_level e req st) (req_latest req) (initial st)"
    by (simp add: balance_steps_def balance_read_def)
  also have "\<dots> = (if vault_password_of e req st = []
      then (Returned, respond_json 500 ''Vault password not configured or not found in DB.''
                        (initial (accounted e req st)))
      else if str_includes (req_latest req) (vault_password_of e req st)
      then cracked e (req_challenge_id req) (req_participant_id req) (param_conversation_id req)
             (initial (accounted e req st))
      else generate e (req_messages req) (vault_password_of e req st) (req_challenge_id req)
             (req_participant_id req) (param_conversation_id req) (req_level e req st)
             (initial (accounted e req st)))"
    by (simp add: accepted_steps_def Let_def accounted_def vault_password_of_def
        getVaultPasswordFromDb_def initial_db_update)
  finally show ?thesis .
qed

lemmas demo_defs = demo_store_def demo_request_def demo_env_def no_rejection_def
  passes_validation_def balance_read_def accepted_def truthy_def template_of_def
  req_messages_def req_challenge_id_def req_participant_id_def req_latest_def
  getChallengeInfoFromDb_def getLatestUserMessage_def getParticipantBalance_def
  vault_password_of_def getVaultPasswordFromDb_def req_level_def

lemma first_user_none: "first_user ms = None \<longleftrightarrow> list_all (\<lambda>m. role m \<noteq> User) ms"
  by (induction ms) auto

lemma getLatestUserMessage_none:
  "getLatestUserMessage ms = None \<longleftrightarrow> list_all (\<lambda>m. role m \<noteq> User) ms"
  by (simp add: getLatestUserMessage_def first_user_none list_all_iff)

text \<open>
  C1.  A request that passes every check before the balance read (payload, challenge id,
  participant id, challenge lookup, latest user message) and whose balance read returns
  not-found or a value of zero or below is answered 400, insufficient balance, and nothing
  else happens: the store is the one the request found (no message row, no counter
  increment, no balance decrement), and no agent and no webhook is called.
\<close>

theorem insufficient_balance_rejected:
  assumes "passes_validation e req st"
      and "balance_read e req st = None \<or> (\<exists>b. balance_read e req st = Some b \<and> b \<le> 0)"
  shows "handleStreamData e req st =
           \<lparr>db = st, res = [Status 400, Json ''Insufficient balance to send a message.''],
            agent_calls = [], slack_posts = []\<rparr>"
  using assms by (rule handle_insufficient)

theorem insufficient_balance_rejected_witness:
  "passes_validation demo_env demo_request
       (demo_store\<lparr>PARTICIPANTS_TABLE := [(''c1'', ''p1'') \<mapsto> \<lparr>balance = Some 0\<rparr>]\<rparr>)
   \<and> balance_read demo_env demo_request
       (demo_store\<lparr>PARTICIPANTS_TABLE := [(''c1'', ''p1'') \<mapsto> \<lparr>balance = Some 0\<rparr>]\<rparr>) = Some 0
   \<and> handleStreamData demo_env demo_request
       (demo_store\<lparr>PARTICIPANTS_TABLE := [(''c1'', ''p1'') \<mapsto> \<lparr>balance = Some 0\<rparr>]\<rparr>)
     = \<lparr>db = demo_store\<lparr>PARTICIPANTS_TABLE := [(''c1'', ''p1'') \<mapsto> \<lparr>balance = Some 0\<rparr>]\<rparr>,
        res = [Status 400, Json ''Insufficient balance to send a message.''],
        agent_calls = [], slack_posts = []\<rparr>"
proof -
  let ?st = "demo_store\<lparr>PARTICIPANTS_TABLE := [(''c1'', ''p1'') \<mapsto> \<lparr>balance = Some 0\<rparr>]\<rparr>"
  have v: "passes_validation demo_env demo_request ?st"
    by (simp add: demo_defs)
  have b: "balance_read demo_env demo_request ?st = Some 0"
    by (simp add: demo_defs)
  from b have low: "balance_read demo_env demo_request ?st = None
      \<or> (\<exists>b. balance_read demo_env demo_request ?st = Some b \<and> b \<le> 0)"
    by simp
  from v b insufficient_balance_rejected [OF v low] show ?thesis by simp
qed

text \<open>
  C9.  When the participant read rejects, \<open>getParticipantBalance\<close> returns \<open>None\<close>, and the
  handler answers with the 400 business rejection, insufficient balance, and goes no
  further: the store is unchanged and nothing is called.
\<close>

theorem balance_read_fault_reported_as_insufficient:
  assumes "passes_validation e req st"
      and "store_rejects e GetParticipant"
  shows "getParticipantBalance (store_rejects e) st (req_challenge_id req) (req_participant_id req)
           = None
         \<and> handleStreamData e req st =
           \<lparr>db = st, res = [Status 400, Json ''Insufficient balance to send a message.''],
            agent_calls = [], slack_posts = []\<rparr>"
proof -
  from assms(2) have "balance_read e req st = None"
    by (simp add: balance_read_def getParticipantBalance_def)
  with assms(1) show ?thesis
    by (simp add: handle_insufficient balance_read_def)
qed

theorem balance_read_fault_reported_as_insufficient_witness:
  "passes_validation (demo_env\<lparr>store_rejects := (\<lambda>c. c = GetParticipant)\<rparr>) demo_request demo_store
   \<and> store_rejects (demo_env\<lparr>store_rejects := (\<lambda>c. c = GetParticipant)\<rparr>) GetParticipant
   \<and> PARTICIPANTS_TABLE demo_store (''c1'', ''p1'') = Some \<lparr>balance = Some 1\<rparr>
   \<and> handleStreamData (demo_env\<lparr>store_rejects := (\<lambda>c. c = GetParticipant)\<rparr>) demo_request demo_store
     = \<lparr>db = demo_store, res = [Status 400, Json ''Insufficient balance to send a message.''],
        agent_calls = [], slack_posts = []\<rparr>"
proof -
  let ?e = "demo_env\<lparr>store_rejects := (\<lambda>c. c = GetParticipant)\<rparr>"
  have v: "passes_validation ?e demo_request demo_store"
    by (simp add: demo_defs)
  have r: "store_rejects ?e GetParticipant"
    by simp
  have p: "PARTICIPANTS_TABLE demo_store (''c1'', ''p1'') = Some \<lparr>balance = Some 1\<rparr>"
    by (simp add: demo_store_def)
  from v r p balance_read_fault_reported_as_insufficient [OF v r] show ?thesis by simp
qed

text \<open>
  C8.  An accepted request whose password fetch yields the empty string (the read
  rejected, the item or its attribute is missing, or the stored password is empty) ends
  with status 500, vault password not configured.  The empty string never reaches the
  crack check: nothing is streamed, no assistant row is written (the store is the one the
  accounting of the user message left) and no agent is called.  The password is read from
  the store after the accounting, which does not touch the passwords table.
\<close>

theorem missing_vault_password_is_server_error:
  assumes "accepted e req st"
      and "vault_password_of e req st = []"
  shows "handleStreamData e req st =
           \<lparr>db = accounted e req st,
            res = [Status 500, Json ''Vault password not configured or not found in DB.''],
            agent_calls = [], slack_posts = []\<rparr>"
  using assms(2)
  by (simp add: handleStreamData_initial try_block_accepted [OF assms(1)]
      respond_json_initial)

theorem missing_vault_password_is_server_error_witness:
  "accepted demo_env demo_request (demo_store\<lparr>VAULT_PASSWORDS_TABLE := Map.empty\<rparr>)
   \<and> vault_password_of demo_env demo_request (demo_store\<lparr>VAULT_PASSWORDS_TABLE := Map.empty\<rparr>) = []
   \<and> res (handleStreamData demo_env demo_request (demo_store\<lparr>VAULT_PASSWORDS_TABLE := Map.empty\<rparr>))
     = [Status 500, Json ''Vault password not configured or not found in DB.'']"
proof -
  let ?st = "demo_store\<lparr>VAULT_PASSWORDS_TABLE := Map.empty\<rparr>"
  have a: "accepted demo_env demo_request ?st"
    by (simp add: demo_defs)
  have p: "vault_password_of demo_env demo_request ?st = []"
    by (simp add: demo_defs)
  from a p missing_vault_password_is_server_error [OF a p] show ?thesis by simp
qed

subsection \<open>Validation\<close>

lemma try_block_lacking:
  assumes "lacks_required_input req"
  shows "try_block e req (initial st) =
     (Returned,
      if challenge_lookup_decides e req st
      then respond_json 500 ''No challenge info found or DynamoDB error.'' (initial st)
      else respond_json 400
             (if body_messages req = None then ''Invalid payload format.''
              else if \<not> truthy (param_challenge_id req)
              then ''Missing challenge_id in request path''
              else if \<not> truthy (query_participant_id req)
              then ''Missing participant_id in query''
              else ''No user message found.'')
             (initial st))"
  using assms
  by (auto simp: lacks_required_input_def challenge_lookup_decides_def try_block_def Let_def
      req_challenge_id_def getLatestUserMessage_none [symmetric] truthy_def
      split: option.splits)

text \<open>
  C7, as amended.  A request without a messages array, with an array that has no
  user-role entry, without a challenge id or without a participant id fails terminally
  with no store write and no agent or webhook call.  The status is 400, except where the
  array and both ids are present and the challenge lookup finds nothing or rejects: the
  lookup comes before the user-message check, and the status is then 500.
\<close>

theorem invalid_request_rejected_without_write:
  assumes "lacks_required_input req"
  shows "db (handleStreamData e req st) = st
         \<and> agent_calls (handleStreamData e req st) = []
         \<and> slack_posts (handleStreamData e req st) = []
         \<and> (if challenge_lookup_decides e req st
            then res (handleStreamData e req st)
                   = [Status 500, Json ''No challenge info found or DynamoDB error.'']
            else \<exists>msg. res (handleStreamData e req st) = [Status 400, Json msg])"
  by (simp add: handleStreamData_initial try_block_lacking [OF assms] respond_json_initial)

theorem invalid_request_rejected_without_write_witness:
  "lacks_required_input (demo_request\<lparr>body_messages := Some []\<rparr>)
   \<and> \<not> challenge_lookup_decides demo_env (demo_request\<lparr>body_messages := Some []\<rparr>) demo_store
   \<and> db (handleStreamData demo_env (demo_request\<lparr>body_messages := Some []\<rparr>) demo_store)
       = demo_store
   \<and> (\<exists>msg. res (handleStreamData demo_env (demo_request\<lparr>body_messages := Some []\<rparr>) demo_store)
         = [Status 400, Json msg])"
proof -
  let ?req = "demo_request\<lparr>body_messages := Some []\<rparr>"
  have l: "lacks_required_input ?req"
    by (simp add: lacks_required_input_def demo_request_def)
  have d: "\<not> challenge_lookup_decides demo_env ?req demo_store"
    by (simp add: challenge_lookup_decides_def demo_defs)
  from l d invalid_request_rejected_without_write [OF l, of demo_env demo_store]
  show ?thesis by simp
qed

theorem empty_messages_unknown_challenge_counterexample:
  "lacks_required_input (demo_request\<lparr>body_messages := Some []\<rparr>)
   \<and> res (handleStreamData demo_env (demo_request\<lparr>body_messages := Some []\<rparr>) empty_store)
       = [Status 500, Json ''No challenge info found or DynamoDB error.'']"
  by (simp add: lacks_required_input_def handleStreamData_def try_block_def demo_defs
      empty_store_def respond_json_def Let_def)

subsection \<open>Crack check and generation\<close>

lemma forward_stream_eq:
  "forward_stream r acc chunks = (r @ map (\<lambda>c. Write (framed_line c)) chunks, acc @ concat chunks)"
  by (induction chunks arbitrary: r acc) (simp_all add: writeTransformedChunk_def)

lemma writes_simps [simp]:
  "writes [] = []"
  "writes (Write l # r) = l # writes r"
  "writes (Status n # r) = writes r"
  "writes (Json m # r) = writes r"
  "writes (SetHeader k v # r) = writes r"
  "writes (End # r) = writes r"
  "writes (r @ r') = writes r @ writes r'"
  by (simp_all add: writes_def)

lemma writes_map_Write [simp]: "writes (map (\<lambda>c. Write (f c)) cs) = map f cs"
  by (induction cs) simp_all

lemma notifySlackChannel_message: "notifySlackChannel post = Some m \<Longrightarrow> m \<noteq> []"
  by (auto simp: notifySlackChannel_def split: sum.splits prod.splits if_splits)

lemma reward_response_initial:
  "reward_response e c p conv ((initial st)\<lparr>slack_posts := posts\<rparr>) =
     \<lparr>db = saveMessageToDb (store_rejects e) PutAssistantMessage st
             (assistant_row conv c p finalRewardMsg),
      res = [SetHeader ''Content-Type'' ''text/plain; charset=utf-8'',
             Write (framed_line finalRewardMsg), End],
      agent_calls = [], slack_posts = posts\<rparr>"
  by (simp add: reward_response_def initial_def writeTransformedChunk_def Let_def)

lemma initial_posts_id: "(initial st)\<lparr>slack_posts := []\<rparr> = initial st"
  by (simp add: initial_def)

lemma handle_cracked:
  assumes "accepted e req st" "vault_password_of e req st \<noteq> []"
      and "str_includes (req_latest req) (vault_password_of e req st)"
  shows "handleStreamData e req st =
     (case cracked e (req_challenge_id req) (req_participant_id req) (param_conversation_id req)
             (initial (accounted e req st)) of
        (Returned, s) \<Rightarrow> s
      | (Threw message, s) \<Rightarrow> respond_json 500 (str_or message ''Internal Server Error'') s)"
  using assms(2,3) by (simp add: handleStreamData_initial try_block_accepted [OF assms(1)])

lemma handle_cracked_delivered:
  assumes "accepted e req st" "vault_password_of e req st \<noteq> []"
      and "str_includes (req_latest req) (vault_password_of e req st)"
      and "notification_skipped e req \<or> notifySlackChannel (slack_response e) = None"
  shows "db (handleStreamData e req st) =
           saveMessageToDb (store_rejects e) PutAssistantMessage (accounted e req st)
             (the_reward_row req)"
    and "res (handleStreamData e req st) =
           [SetHeader ''Content-Type'' ''text/plain; charset=utf-8'',
            Write (framed_line finalRewardMsg), End]"
    and "agent_calls (handleStreamData e req st) = []"
proof -
  let ?posts = "if notification_skipped e req then []
                else [(template_of (SLACK_WEBHOOK_URL e),
                       ''The vault has been cracked in conversation ''
                         @ template_of (param_conversation_id req) @ ''!'')]"
  from assms(4)
  have "cracked e (req_challenge_id req) (req_participant_id req) (param_conversation_id req)
             (initial (accounted e req st))
        = (Returned, reward_response e (req_challenge_id req) (req_participant_id req)
             (param_conversation_id req) ((initial (accounted e req st))\<lparr>slack_posts := ?posts\<rparr>))"
    by (auto simp: cracked_def notification_skipped_def Let_def initial_posts_id)
  then have h: "handleStreamData e req st =
      reward_response e (req_challenge_id req) (req_participant_id req)
             (param_conversation_id req) ((initial (accounted e req st))\<lparr>slack_posts := ?posts\<rparr>)"
    by (simp add: handle_cracked [OF assms(1-3)])
  show "db (handleStreamData e req st) =
           saveMessageToDb (store_rejects e) PutAssistantMessage (accounted e req st)
             (the_reward_row req)"
    by (simp only: h reward_response_initial the_reward_row_def hstate.simps)
  show "res (handleStreamData e req st) =
           [SetHeader ''Content-Type'' ''text/plain; charset=utf-8'',
            Write (framed_line finalRewardMsg), End]"
    by (simp only: h reward_response_initial hstate.simps)
  show "agent_calls (handleStreamData e req st) = []"
    by (simp only: h reward_response_initial hstate.simps)
qed

lemma handle_cracked_aborted:
  assumes "accepted e req st" "vault_password_of e req st \<noteq> []"
      and "str_includes (req_latest req) (vault_password_of e req st)"
      and "\<not> notification_skipped e req" "notifySlackChannel (slack_response e) = Some m"
  shows "db (handleStreamData e req st) = accounted e req st"
    and "res (handleStreamData e req st) = [Status 500, Json m]"
    and "agent_calls (handleStreamData e req st) = []"
proof -
  from assms(5) have m: "str_or m ''Internal Server Error'' = m"
    by (simp add: str_or_def notifySlackChannel_message)
  from assms(4,5)
  have "cracked e (req_challenge_id req) (req_participant_id req) (param_conversation_id req)
             (initial (accounted e req st))
        = (Threw m, (initial (accounted e req st))\<lparr>slack_posts :=
                         [(template_of (SLACK_WEBHOOK_URL e),
                           ''The vault has been cracked in conversation ''
                             @ template_of (param_conversation_id req) @ ''!'')]\<rparr>)"
    by (simp add: cracked_def notification_skipped_def Let_def)
  then have h: "handleStreamData e req st =
      respond_json 500 m ((initial (accounted e req st))\<lparr>slack_posts :=
                         [(template_of (SLACK_WEBHOOK_URL e),
                           ''The vault has been cracked in conversation ''
                             @ template_of (param_conversation_id req) @ ''!'')]\<rparr>)"
    by (simp add: handle_cracked [OF assms(1-3)] m)
  show "db (handleStreamData e req st) = accounted e req st"
    by (simp add: h respond_json_def)
  show "res (handleStreamData e req st) = [Status 500, Json m]"
    by (simp add: h respond_json_def)
  show "agent_calls (handleStreamData e req st) = []"
    by (simp add: h respond_json_def)
qed

lemma handle_generate:
  assumes "accepted e req st" "vault_password_of e req st \<noteq> []"
      and "\<not> str_includes (req_latest req) (vault_password_of e req st)"
  shows "handleStreamData e req st =
     (case generate e (req_messages req) (vault_password_of e req st) (req_challenge_id req)
             (req_participant_id req) (param_conversation_id req) (req_level e req st)
             (initial (accounted e req st)) of
        (Returned, s) \<Rightarrow> s
      | (Threw message, s) \<Rightarrow> respond_json 500 (str_or message ''Internal Server Error'') s)"
  using assms(2,3) by (simp add: handleStreamData_initial try_block_accepted [OF assms(1)])

lemma generate_easy_calls:
  "agent_calls (case generate e ms pw c p conv (Some ''EASY'') (initial d) of
        (Returned, s) \<Rightarrow> s
      | (Threw message, s) \<Rightarrow> respond_json 500 (str_or message ''Internal Server Error'') s)
     = [GenerateText ms pw c]"
  by (simp add: generate_def generate_easy_def Let_def respond_json_def split: sum.splits)

lemma generate_easy_returned:
  "generateText_result e = Inr text \<Longrightarrow>
   (case generate e ms pw c p conv (Some ''EASY'') (initial d) of
        (Returned, s) \<Rightarrow> s
      | (Threw message, s) \<Rightarrow> respond_json 500 (str_or message ''Internal Server Error'') s)
     = \<lparr>db = saveMessageToDb (store_rejects e) PutAssistantMessage d (assistant_row conv c p text),
        res = [SetHeader ''Content-Type'' ''text/plain; charset=utf-8'', Status 200,
               Write (framed_line text), End],
        agent_calls = [GenerateText ms pw c], slack_posts = []\<rparr>"
  by (simp add: generate_def generate_easy_def Let_def initial_def writeTransformedChunk_def)

lemma generate_hard_rejected:
  "generateText_result e = Inl m \<Longrightarrow>
   (case generate e ms pw c p conv (Some ''HARD'') (initial d) of
        (Returned, s) \<Rightarrow> s
      | (Threw message, s) \<Rightarrow> respond_json 500 (str_or message ''Internal Server Error'') s)
     = \<lparr>db = d,
        res = [SetHeader ''Content-Type'' ''text/plain; charset=utf-8'', Status 200,
               Status 500, Json (str_or m ''Internal Server Error'')],
        agent_calls = [GenerateText ms pw c], slack_posts = []\<rparr>"
  by (simp add: generate_def generate_hard_def Let_def initial_def respond_json_def)

lemma generate_hard_calls:
  "generateText_result e = Inr a1 \<Longrightarrow>
   agent_calls (case generate e ms pw c p conv (Some ''HARD'') (initial d) of
        (Returned, s) \<Rightarrow> s
      | (Threw message, s) \<Rightarrow> respond_json 500 (str_or message ''Internal Server Error'') s)
     = [GenerateText ms pw c, StreamText a1 ms c]"
  by (simp add: generate_def generate_hard_def Let_def respond_json_def forward_stream_eq
      split: option.splits)

lemma generate_hard_writes:
  "generateText_result e = Inr a1 \<Longrightarrow>
   writes (res (case generate e ms pw c p conv (Some ''HARD'') (initial d) of
        (Returned, s) \<Rightarrow> s
      | (Threw message, s) \<Rightarrow> respond_json 500 (str_or message ''Internal Server Error'') s))
     = map framed_line (textStream e)"
  by (simp add: generate_def generate_hard_def Let_def respond_json_def forward_stream_eq
      split: option.splits)

lemma generate_hard_completed:
  "generateText_result e = Inr a1 \<Longrightarrow> textStream_error e = None \<Longrightarrow>
   db (case generate e ms pw c p conv (Some ''HARD'') (initial d) of
        (Returned, s) \<Rightarrow> s
      | (Threw message, s) \<Rightarrow> respond_json 500 (str_or message ''Internal Server Error'') s)
     = saveMessageToDb (store_rejects e) PutAssistantMessage d
         (assistant_row conv c p (concat (textStream e)))"
  by (simp add: generate_def generate_hard_def Let_def respond_json_def forward_stream_eq
      split: option.splits)

lemma generate_hard_completed_res:
  "generateText_result e = Inr a1 \<Longrightarrow> textStream_error e = None \<Longrightarrow> usage_error e = None \<Longrightarrow>
   res (case generate e ms pw c p conv (Some ''HARD'') (initial d) of
        (Returned, s) \<Rightarrow> s
      | (Threw message, s) \<Rightarrow> respond_json 500 (str_or message ''Internal Server Error'') s)
     = [SetHeader ''Content-Type'' ''text/plain; charset=utf-8'', Status 200]
       @ map (\<lambda>c. Write (framed_line c)) (textStream e) @ [End]"
  by (simp add: generate_def generate_hard_def Let_def respond_json_def forward_stream_eq)

lemma generate_unknown_level:
  "lvl \<noteq> Some ''EASY'' \<Longrightarrow> lvl \<noteq> Some ''HARD'' \<Longrightarrow>
   (case generate e ms pw c p conv lvl (initial d) of
        (Returned, s) \<Rightarrow> s
      | (Threw message, s) \<Rightarrow> respond_json 500 (str_or message ''Internal Server Error'') s)
     = \<lparr>db = d,
        res = [SetHeader ''Content-Type'' ''text/plain; charset=utf-8'', Status 200,
               Status 400, Json (''Unknown challenge level: '' @ template_of lvl)],
        agent_calls = [], slack_posts = []\<rparr>"
  by (simp add: generate_def Let_def initial_def respond_json_def)

lemma saveMessageToDb_rows:
  "\<not> rejects site \<Longrightarrow>
   MESSAGES_TABLE (saveMessageToDb rejects site st row) = MESSAGES_TABLE st @ [row]"
  by (simp add: saveMessageToDb_def dynamodb_put_message_def)

text \<open>
  C4.  For an accepted request with a password that the latest user message does not
  contain: on \<^verbatim>\<open>EASY\<close> exactly one generation call is issued, and when it returns its text,
  exactly one framed fragment is written.  On \<^verbatim>\<open>HARD\<close> the primary agent is called first; if
  it fails, no second call is made and nothing is written; when it returns, the secondary
  agent is called next, the lines written are exactly the framed fragments of the
  secondary agent in arrival order (whatever the primary agent's text was), and when the
  stream completes and the store accepts the put, the new assistant row holds the
  concatenation of the fragments in arrival order.
\<close>

theorem generation_by_level:
  fixes e req st
  defines "h \<equiv> handleStreamData e req st"
      and "pw \<equiv> vault_password_of e req st"
  assumes "accepted e req st" "pw \<noteq> []" "\<not> str_includes (req_latest req) pw"
  shows "(req_level e req st = Some ''EASY'' \<longrightarrow>
            agent_calls h = [GenerateText (req_messages req) pw (req_challenge_id req)]
            \<and> (\<forall>text. generateText_result e = Inr text \<longrightarrow>
                  writes (res h) = [framed_line text]
                  \<and> res h = [SetHeader ''Content-Type'' ''text/plain; charset=utf-8'',
                             Status 200, Write (framed_line text), End]))
         \<and> (req_level e req st = Some ''HARD'' \<longrightarrow>
              (\<forall>m. generateText_result e = Inl m \<longrightarrow>
                 agent_calls h = [GenerateText (req_messages req) pw (req_challenge_id req)]
                 \<and> writes (res h) = [])
              \<and> (\<forall>agent1Response. generateText_result e = Inr agent1Response \<longrightarrow>
                 agent_calls h = [GenerateText (req_messages req) pw (req_challenge_id req),
                                  StreamText agent1Response (req_messages req)
                                    (req_challenge_id req)]
                 \<and> writes (res h) = map framed_line (textStream e)
                 \<and> (textStream_error e = None \<and> \<not> store_rejects e PutAssistantMessage \<longrightarrow>
                      MESSAGES_TABLE (db h) =
                        MESSAGES_TABLE (accounted e req st)
                        @ [assistant_row (param_conversation_id req) (req_challenge_id req)
                             (req_participant_id req) (concat (textStream e))])))"
proof -
  note hg = handle_generate [OF assms(3) assms(4) [unfolded pw_def] assms(5) [unfolded pw_def]]
  show ?thesis
    unfolding h_def pw_def hg
    by (auto simp: generate_easy_calls generate_easy_returned generate_hard_rejected
        generate_hard_calls generate_hard_writes generate_hard_completed saveMessageToDb_rows)
qed

lemma reward_contains_video: "str_includes finalRewardMsg VAULT_CRACKED_VIDEO_COMPONENT"
proof -
  have "sublist VAULT_CRACKED_VIDEO_COMPONENT
          (([CHR 0xF0, CHR 0x9F, CHR 0x8E, CHR 0x89]
            @ '' OMG! You cracked me and the vault is one step away now!''
            @ [newline, newline]) @ VAULT_CRACKED_VIDEO_COMPONENT)"
    by (rule sublist_append_leftI)
  then show ?thesis
    by (simp add: str_includes_sublist finalRewardMsg_def)
qed

text \<open>
  C2, as amended.  For an accepted request with a non-empty password: if the latest user
  message includes the password, no agent is called, and when the notification is not
  attempted or succeeds, the response is the single framed celebratory message, ended,
  and that text is appended as an assistant row when the store accepts the put.  If the
  message does not include the password, the primary agent is called when the level is
  \<^verbatim>\<open>EASY\<close> or \<^verbatim>\<open>HARD\<close>; for any other level no agent is called and the request ends
  with 400, unknown challenge level.  The celebratory message includes the reward-video
  component.
\<close>

theorem crack_check_selects_response:
  fixes e req st
  defines "h \<equiv> handleStreamData e req st"
      and "pw \<equiv> vault_password_of e req st"
  assumes "accepted e req st" "pw \<noteq> []"
  shows "(str_includes (req_latest req) pw \<longrightarrow>
            agent_calls h = []
            \<and> (notification_skipped e req \<or> notifySlackChannel (slack_response e) = None \<longrightarrow>
                 res h = [SetHeader ''Content-Type'' ''text/plain; charset=utf-8'',
                          Write (framed_line finalRewardMsg), End]
                 \<and> (\<not> store_rejects e PutAssistantMessage \<longrightarrow>
                      MESSAGES_TABLE (db h) =
                        MESSAGES_TABLE (accounted e req st) @ [the_reward_row req])))
         \<and> (\<not> str_includes (req_latest req) pw \<longrightarrow>
              (req_level e req st = Some ''EASY'' \<or> req_level e req st = Some ''HARD'' \<longrightarrow>
                 GenerateText (req_messages req) pw (req_challenge_id req) \<in> set (agent_calls h))
              \<and> (req_level e req st \<noteq> Some ''EASY'' \<and> req_level e req st \<noteq> Some ''HARD'' \<longrightarrow>
                 agent_calls h = []
                 \<and> res h = [SetHeader ''Content-Type'' ''text/plain; charset=utf-8'',
                            Status 200, Status 400,
                            Json (''Unknown challenge level: ''
                                    @ template_of (req_level e req st))]))
         \<and> row_role (the_reward_row req) = Assistant
         \<and> row_content (the_reward_row req) = finalRewardMsg
         \<and> str_includes finalRewardMsg VAULT_CRACKED_VIDEO_COMPONENT"
proof -
  have a: "accepted e req st" and p: "vault_password_of e req st \<noteq> []"
    using assms(3,4) by (simp_all add: pw_def)
  have cracked_part: "agent_calls h = []
            \<and> (notification_skipped e req \<or> notifySlackChannel (slack_response e) = None \<longrightarrow>
                 res h = [SetHeader ''Content-Type'' ''text/plain; charset=utf-8'',
                          Write (framed_line finalRewardMsg), End]
                 \<and> (\<not> store_rejects e PutAssistantMessage \<longrightarrow>
                      MESSAGES_TABLE (db h) =
                        MESSAGES_TABLE (accounted e req st) @ [the_reward_row req]))"
    if c: "str_includes (req_latest req) pw"
  proof -
    have c': "str_includes (req_latest req) (vault_password_of e req st)"
      using c by (simp add: pw_def)
    have "agent_calls h = []"
    proof (cases "notification_skipped e req \<or> notifySlackChannel (slack_response e) = None")
      case True
      then show ?thesis unfolding h_def by (rule handle_cracked_delivered(3) [OF a p c'])
    next
      case False
      then obtain m where "\<not> notification_skipped e req"
          "notifySlackChannel (slack_response e) = Some m"
        by auto
      then show ?thesis unfolding h_def by (rule handle_cracked_aborted(3) [OF a p c'])
    qed
    then show ?thesis
      unfolding h_def
      by (auto simp: handle_cracked_delivered(1,2) [OF a p c'] saveMessageToDb_rows)
  qed
  have generate_part: "(req_level e req st = Some ''EASY'' \<or> req_level e req st = Some ''HARD'' \<longrightarrow>
                 GenerateText (req_messages req) pw (req_challenge_id req) \<in> set (agent_calls h))
              \<and> (req_level e req st \<noteq> Some ''EASY'' \<and> req_level e req st \<noteq> Some ''HARD'' \<longrightarrow>
                 agent_calls h = []
                 \<and> res h = [SetHeader ''Content-Type'' ''text/plain; charset=utf-8'',
                            Status 200, Status 400,
                            Json (''Unknown challenge level: ''
                                    @ template_of (req_level e req st))])"
    if n: "\<not> str_includes (req_latest req) pw"
  proof -
    have n': "\<not> str_includes (req_latest req) (vault_password_of e req st)"
      using n by (simp add: pw_def)
    note hg = handle_generate [OF a p n']
    show ?thesis
      unfolding h_def pw_def hg
      by (cases "generateText_result e")
         (auto simp: generate_easy_calls generate_hard_rejected generate_hard_calls
            generate_unknown_level)
  qed
  from cracked_part generate_part show ?thesis
    by (simp add: reward_contains_video the_reward_row_def assistant_row_def)
qed

lemma handle_cracked_posts:
  assumes "accepted e req st" "vault_password_of e req st \<noteq> []"
      and "str_includes (req_latest req) (vault_password_of e req st)"
  shows "slack_posts (handleStreamData e req st) =
           (if notification_skipped e req then [] else [crack_notice e req])"
proof (cases "notification_skipped e req")
  case True
  then have "cracked e (req_challenge_id req) (req_participant_id req) (param_conversation_id req)
             (initial (accounted e req st))
        = (Returned, reward_response e (req_challenge_id req) (req_participant_id req)
             (param_conversation_id req) ((initial (accounted e req st))\<lparr>slack_posts := []\<rparr>))"
    by (auto simp: cracked_def notification_skipped_def initial_posts_id)
  with True show ?thesis
    by (simp add: handle_cracked [OF assms] reward_response_initial)
next
  case False
  show ?thesis
  proof (cases "notifySlackChannel (slack_response e)")
    case None
    with False
    have "cracked e (req_challenge_id req) (req_participant_id req) (param_conversation_id req)
             (initial (accounted e req st))
        = (Returned, reward_response e (req_challenge_id req) (req_participant_id req)
             (param_conversation_id req)
             ((initial (accounted e req st))\<lparr>slack_posts := [crack_notice e req]\<rparr>))"
      by (simp add: cracked_def notification_skipped_def Let_def crack_notice_def)
    with False show ?thesis
      by (simp add: handle_cracked [OF assms] reward_response_initial)
  next
    case (Some m)
    with False
    have "cracked e (req_challenge_id req) (req_participant_id req) (param_conversation_id req)
             (initial (accounted e req st))
        = (Threw m, (initial (accounted e req st))\<lparr>slack_posts := [crack_notice e req]\<rparr>)"
      by (simp add: cracked_def notification_skipped_def Let_def crack_notice_def)
    with False show ?thesis
      by (simp add: handle_cracked [OF assms] respond_json_def)
  qed
qed

lemma notifySlackChannel_prefix:
  "notifySlackChannel post = Some m \<Longrightarrow> \<exists>detail. m = ''Slack notification error: '' @ detail"
  by (auto simp: notifySlackChannel_def split: sum.splits prod.splits if_splits)

lemma notifySlackChannel_ok:
  "notifySlackChannel post = None \<longleftrightarrow> (\<exists>data. post = Inr (200, data))"
  by (auto simp: notifySlackChannel_def split: sum.splits prod.splits if_splits)

lemma saveMessageToDb_rejected: "rejects site \<Longrightarrow> saveMessageToDb rejects site st row = st"
  by (simp add: saveMessageToDb_def dynamodb_put_message_def)

text \<open>
  C3, as amended.  On the cracked path the notification is attempted exactly when a
  webhook URL and a conversation id are present: one post is made then, and none
  otherwise.  It succeeds exactly when the post resolves with status 200.  When it is
  attempted and fails, the notifier throws an error whose message starts with
  \<open>Slack notification error: \<close>, the response is 500 with that message, nothing is
  streamed, and the store is the one the accounting of the user message left, without an
  assistant row.  When the notification is not attempted or succeeds, the celebratory
  message is saved as an assistant row (a rejected put is swallowed and leaves the store
  as it was) and streamed as one framed line, and the stream ends.  No agent is called.
\<close>

theorem notification_failure_aborts_cracked_response:
  fixes e req st
  defines "h \<equiv> handleStreamData e req st"
  assumes "accepted e req st" "vault_password_of e req st \<noteq> []"
      and "str_includes (req_latest req) (vault_password_of e req st)"
  shows "notification_skipped e req
           = (\<not> truthy (SLACK_WEBHOOK_URL e) \<or> \<not> truthy (param_conversation_id req))
         \<and> slack_posts h = (if notification_skipped e req then [] else [crack_notice e req])
         \<and> agent_calls h = []
         \<and> (notifySlackChannel (slack_response e) = None
              \<longleftrightarrow> (\<exists>data. slack_response e = Inr (200, data)))
         \<and> (\<not> notification_skipped e req \<longrightarrow>
              (\<forall>m. notifySlackChannel (slack_response e) = Some m \<longrightarrow>
                 (\<exists>detail. m = ''Slack notification error: '' @ detail)
                 \<and> res h = [Status 500, Json m] \<and> writes (res h) = []
                 \<and> db h = accounted e req st))
         \<and> (notification_skipped e req \<or> notifySlackChannel (slack_response e) = None \<longrightarrow>
              res h = [SetHeader ''Content-Type'' ''text/plain; charset=utf-8'',
                       Write (framed_line finalRewardMsg), End]
              \<and> writes (res h) = [framed_line finalRewardMsg]
              \<and> db h = saveMessageToDb (store_rejects e) PutAssistantMessage
                         (accounted e req st) (the_reward_row req)
              \<and> (\<not> store_rejects e PutAssistantMessage \<longrightarrow>
                    MESSAGES_TABLE (db h)
                      = MESSAGES_TABLE (accounted e req st) @ [the_reward_row req])
              \<and> (store_rejects e PutAssistantMessage \<longrightarrow> db h = accounted e req st))"
proof -
  have skipped: "notification_skipped e req
           = (\<not> truthy (SLACK_WEBHOOK_URL e) \<or> \<not> truthy (param_conversation_id req))"
    by (auto simp: notification_skipped_def)
  have posts: "slack_posts h = (if notification_skipped e req then [] else [crack_notice e req])"
    unfolding h_def by (rule handle_cracked_posts [OF assms(2-4)])
  have calls: "agent_calls h = []"
  proof (cases "notification_skipped e req \<or> notifySlackChannel (slack_response e) = None")
    case True
    then show ?thesis unfolding h_def by (rule handle_cracked_delivered(3) [OF assms(2-4)])
  next
    case False
    then obtain m where "\<not> notification_skipped e req"
        "notifySlackChannel (slack_response e) = Some m"
      by auto
    then show ?thesis unfolding h_def by (rule handle_cracked_aborted(3) [OF assms(2-4)])
  qed
  have aborted: "(\<exists>detail. m = ''Slack notification error: '' @ detail)
                 \<and> res h = [Status 500, Json m] \<and> writes (res h) = []
                 \<and> db h = accounted e req st"
    if "\<not> notification_skipped e req" "notifySlackChannel (slack_response e) = Some m" for m
  proof -
    from that(2) have pre: "\<exists>detail. m = ''Slack notification error: '' @ detail"
      by (rule notifySlackChannel_prefix)
    from that have "res h = [Status 500, Json m] \<and> writes (res h) = []
                 \<and> db h = accounted e req st"
      unfolding h_def by (simp add: handle_cracked_aborted(1,2) [OF assms(2-4)])
    with pre show ?thesis by blast
  qed
  have delivered: "res h = [SetHeader ''Content-Type'' ''text/plain; charset=utf-8'',
                       Write (framed_line finalRewardMsg), End]
              \<and> writes (res h) = [framed_line finalRewardMsg]
              \<and> db h = saveMessageToDb (store_rejects e) PutAssistantMessage
                         (accounted e req st) (the_reward_row req)
              \<and> (\<not> store_rejects e PutAssistantMessage \<longrightarrow>
                    MESSAGES_TABLE (db h)
                      = MESSAGES_TABLE (accounted e req st) @ [the_reward_row req])
              \<and> (store_rejects e PutAssistantMessage \<longrightarrow> db h = accounted e req st)"
    if "notification_skipped e req \<or> notifySlackChannel (slack_response e) = None"
    unfolding h_def using that
    by (simp add: handle_cracked_delivered(1,2) [OF assms(2-4)] saveMessageToDb_rows
        saveMessageToDb_rejected)
  from skipped posts calls aborted delivered notifySlackChannel_ok [of "slack_response e"]
  show ?thesis by blast
qed

lemmas demo_more_defs = cracking_request_def hard_store_def medium_store_def slack_down_env_def
  notification_skipped_def

theorem crack_check_selects_response_witness:
  "accepted demo_env cracking_request demo_store
   \<and> vault_password_of demo_env cracking_request demo_store \<noteq> []
   \<and> str_includes (req_latest cracking_request)
        (vault_password_of demo_env cracking_request demo_store)
   \<and> notification_skipped demo_env cracking_request
   \<and> agent_calls (handleStreamData demo_env cracking_request demo_store) = []
   \<and> res (handleStreamData demo_env cracking_request demo_store)
       = [SetHeader ''Content-Type'' ''text/plain; charset=utf-8'',
          Write (framed_line finalRewardMsg), End]"
proof -
  have a: "accepted demo_env cracking_request demo_store"
    by (simp add: demo_defs demo_more_defs)
  have p: "vault_password_of demo_env cracking_request demo_store \<noteq> []"
    by (simp add: demo_defs demo_more_defs)
  have c: "str_includes (req_latest cracking_request)
        (vault_password_of demo_env cracking_request demo_store)"
    by (simp add: demo_defs demo_more_defs)
  have k: "notification_skipped demo_env cracking_request"
    by (simp add: demo_defs demo_more_defs)
  from a p c k
    crack_check_selects_response [where e = demo_env and req = cracking_request
      and st = demo_store, OF a p]
  show ?thesis by simp
qed

theorem unknown_level_invokes_no_agent_counterexample:
  "accepted demo_env demo_request medium_store
   \<and> vault_password_of demo_env demo_request medium_store = ''sesame''
   \<and> \<not> str_includes (req_latest demo_request) ''sesame''
   \<and> agent_calls (handleStreamData demo_env demo_request medium_store) = []"
proof -
  have a: "accepted demo_env demo_request medium_store"
    by (simp add: demo_defs demo_more_defs)
  have p: "vault_password_of demo_env demo_request medium_store = ''sesame''"
    by (simp add: demo_defs demo_more_defs)
  have n: "\<not> str_includes (req_latest demo_request) ''sesame''"
    by (simp add: demo_defs demo_more_defs)
  have l: "req_level demo_env demo_request medium_store = Some ''MEDIUM''"
    by (simp add: demo_defs demo_more_defs)
  from p n have "agent_calls (handleStreamData demo_env demo_request medium_store) = []"
    by (simp add: handle_generate [OF a] l generate_unknown_level)
  with a p n show ?thesis by simp
qed

theorem notification_failure_aborts_cracked_response_witness:
  "accepted slack_down_env cracking_request demo_store
   \<and> vault_password_of slack_down_env cracking_request demo_store \<noteq> []
   \<and> str_includes (req_latest cracking_request)
        (vault_password_of slack_down_env cracking_request demo_store)
   \<and> \<not> notification_skipped slack_down_env cracking_request
   \<and> notifySlackChannel (slack_response slack_down_env)
       = Some ''Slack notification error: timeout''
   \<and> slack_posts (handleStreamData slack_down_env cracking_request demo_store)
       = [(''https://hooks.example/T1'', ''The vault has been cracked in conversation conv1!'')]
   \<and> res (handleStreamData slack_down_env cracking_request demo_store)
       = [Status 500, Json ''Slack notification error: timeout'']
   \<and> db (handleStreamData slack_down_env cracking_request demo_store)
       = accounted slack_down_env cracking_request demo_store"
proof -
  have a: "accepted slack_down_env cracking_request demo_store"
    by (simp add: demo_defs demo_more_defs)
  have p: "vault_password_of slack_down_env cracking_request demo_store \<noteq> []"
    by (simp add: demo_defs demo_more_defs)
  have c: "str_includes (req_latest cracking_request)
        (vault_password_of slack_down_env cracking_request demo_store)"
    by (simp add: demo_defs demo_more_defs)
  have k: "\<not> notification_skipped slack_down_env cracking_request"
    by (simp add: demo_defs demo_more_defs)
  have f: "notifySlackChannel (slack_response slack_down_env)
       = Some ''Slack notification error: timeout''"
    by (simp add: notifySlackChannel_def demo_defs demo_more_defs)
  have n: "crack_notice slack_down_env cracking_request
       = (''https://hooks.example/T1'', ''The vault has been cracked in conversation conv1!'')"
    by (simp add: crack_notice_def demo_defs demo_more_defs)
  from a p c k f n
    notification_failure_aborts_cracked_response [where e = slack_down_env
      and req = cracking_request and st = demo_store, OF a p c]
  show ?thesis by simp
qed

theorem notification_failure_counterexample:
  "accepted slack_down_env cracking_request demo_store
   \<and> str_includes (req_latest cracking_request)
        (vault_password_of slack_down_env cracking_request demo_store)
   \<and> notifySlackChannel (slack_response slack_down_env) \<noteq> None
   \<and> res (handleStreamData slack_down_env cracking_request demo_store)
       = [Status 500, Json ''Slack notification error: timeout'']
   \<and> MESSAGES_TABLE (db (handleStreamData slack_down_env cracking_request demo_store))
       = [\<lparr>row_conversation_id = ''conv1'', row_challenge_id = ''c1'',
           row_participant_id = ''p1'', row_role = User, row_content = ''open sesame''\<rparr>]"
proof -
  have a: "accepted slack_down_env cracking_request demo_store"
    by (simp add: demo_defs demo_more_defs)
  have p: "vault_password_of slack_down_env cracking_request demo_store \<noteq> []"
    by (simp add: demo_defs demo_more_defs)
  have c: "str_includes (req_latest cracking_request)
        (vault_password_of slack_down_env cracking_request demo_store)"
    by (simp add: demo_defs demo_more_defs)
  have k: "\<not> notification_skipped slack_down_env cracking_request"
    by (simp add: demo_defs demo_more_defs)
  have f: "notifySlackChannel (slack_response slack_down_env)
       = Some ''Slack notification error: timeout''"
    by (simp add: notifySlackChannel_def demo_defs demo_more_defs)
  have rows: "MESSAGES_TABLE (accounted slack_down_env cracking_request demo_store)
       = [\<lparr>row_conversation_id = ''conv1'', row_challenge_id = ''c1'',
           row_participant_id = ''p1'', row_role = User, row_content = ''open sesame''\<rparr>]"
    by (simp add: accounted_def handleUserMessage_rows demo_defs demo_more_defs opt_or_def
        str_or_def)
  from a c f rows handle_cracked_aborted(1,2) [OF a p c k f]
  show ?thesis by simp
qed

theorem generation_by_level_witness:
  "accepted demo_env demo_request hard_store
   \<and> vault_password_of demo_env demo_request hard_store \<noteq> []
   \<and> \<not> str_includes (req_latest demo_request)
          (vault_password_of demo_env demo_request hard_store)
   \<and> req_level demo_env demo_request hard_store = Some ''HARD''
   \<and> agent_calls (handleStreamData demo_env demo_request hard_store)
       = [GenerateText [\<lparr>role = User, content = ''hello''\<rparr>] ''sesame'' ''c1'',
          StreamText ''no'' [\<lparr>role = User, content = ''hello''\<rparr>] ''c1'']
   \<and> writes (res (handleStreamData demo_env demo_request hard_store))
       = [framed_line ''a'', framed_line ''b'']
   \<and> MESSAGES_TABLE (db (handleStreamData demo_env demo_request hard_store))
       = MESSAGES_TABLE (accounted demo_env demo_request hard_store)
         @ [\<lparr>row_conversation_id = ''conv1'', row_challenge_id = ''c1'',
             row_participant_id = ''p1'', row_role = Assistant, row_content = ''ab''\<rparr>]"
proof -
  have a: "accepted demo_env demo_request hard_store"
    by (simp add: demo_defs demo_more_defs)
  have p: "vault_password_of demo_env demo_request hard_store \<noteq> []"
    by (simp add: demo_defs demo_more_defs)
  have n: "\<not> str_includes (req_latest demo_request)
          (vault_password_of demo_env demo_request hard_store)"
    by (simp add: demo_defs demo_more_defs)
  have l: "req_level demo_env demo_request hard_store = Some ''HARD''"
    by (simp add: demo_defs demo_more_defs)
  have v: "vault_password_of demo_env demo_request hard_store = ''sesame''"
    by (simp add: demo_defs demo_more_defs)
  have g: "generateText_result demo_env = Inr ''no''" "textStream demo_env = [''a'', ''b'']"
      "textStream_error demo_env = None" "\<not> store_rejects demo_env PutAssistantMessage"
    by (simp_all add: demo_env_def no_rejection_def)
  have r: "req_messages demo_request = [\<lparr>role = User, content = ''hello''\<rparr>]"
      "req_challenge_id demo_request = ''c1''" "req_participant_id demo_request = ''p1''"
      "param_conversation_id demo_request = Some ''conv1''"
    by (simp_all add: demo_defs)
  from a p n l
    generation_by_level [where e = demo_env and req = demo_request and st = hard_store,
      OF a p n]
  show ?thesis
    by (simp add: g r v assistant_row_def opt_or_def str_or_def)
qed

subsection \<open>Contract binding cache\<close>

lemma load_demo [simp]: "load_contract demo_chain k = Inr demo_binding"
  by (simp add: load_contract_def demo_chain_def demo_binding_def truthy_def template_of_def)

lemmas cache_eval = getContractForChallenge_def hit_branch_def get_property_def builtin_names_def
  store_binding_def MAX_CONTRACTS_def evictOldestContract_def for_in_items_def delete_own_def
  is_array_index_def empty_heap_def Let_def

text \<open>
  C5.  The code does not keep the cache within \<open>MAX_CONTRACTS\<close> entries.  A get for
  \<^verbatim>\<open>__proto__\<close> is a hit on the prototype: it returns \<^verbatim>\<open>undefined\<close> and sets
  \<^verbatim>\<open>Object.prototype.lastUsed\<close>.  From then on the scan of \<open>evictOldestContract\<close> also
  meets the inherited key \<^verbatim>\<open>lastUsed\<close>, whose time is older than that of every entry made
  later; the key it chooses is not an own entry, nothing is deleted, and every get of an
  uncached id adds an entry: after gets for five further ids the cache holds five.
\<close>

theorem prototype_get_unbounds_cache:
  "fst (getContractForChallenge demo_chain 1 empty_heap ''__proto__'') = Inr None
   \<and> prototype_lastUsed (snd (getContractForChallenge demo_chain 1 empty_heap ''__proto__''))
       = Some 1
   \<and> map fst (own_entries (run_gets demo_chain empty_heap
        [(1, ''__proto__''), (2, ''a''), (3, ''b''), (4, ''c''), (5, ''d''), (6, ''e'')]))
       = [''a'', ''b'', ''c'', ''d'', ''e'']
   \<and> MAX_CONTRACTS < length (own_entries (run_gets demo_chain empty_heap
        [(1, ''__proto__''), (2, ''a''), (3, ''b''), (4, ''c''), (5, ''d''), (6, ''e'')]))"
  by (simp add: cache_eval)

lemma without_prototype_get:
  "map fst (own_entries (run_gets demo_chain empty_heap
        [(2, ''a''), (3, ''b''), (4, ''c''), (5, ''d''), (6, ''e'')]))
       = [''c'', ''d'', ''e'']"
  by (simp add: cache_eval)

lemma index_keys_first:
  "map fst (own_entries (run_gets demo_chain empty_heap
        [(2, ''b''), (3, ''10''), (4, ''9'')])) = [''9'', ''10'', ''b'']"
  by (simp add: cache_eval digit_value_def decimal_value_def)

end
